theory Spec2Isabelle
  imports Complex_Main
begin

section \<open>JavaScript values used by the onboarding services\<close>

text \<open>
  A JavaScript object with string keys is an association list in insertion order:
  \<open>Object.keys\<close>, \<open>Object.values\<close> and \<open>Object.entries\<close> enumerate it in that order.
  The assignment \<open>o[k] = v\<close> overwrites the value of a key that is present, at its
  place, and appends a key that is absent.
\<close>

type_synonym 'v obj = "(string \<times> 'v) list"

fun assign :: "'v obj \<Rightarrow> string \<Rightarrow> 'v \<Rightarrow> 'v obj" where
  "assign [] k v = [(k, v)]"
| "assign ((k', v') # rest) k v =
     (if k' = k then (k, v) # rest else (k', v') # assign rest k v)"

text \<open>
  An optional string field: \<open>None\<close> is \<open>undefined\<close> or \<open>null\<close>. In a condition the
  field counts as true when it is present and not the empty string.
\<close>

definition truthy :: "string option \<Rightarrow> bool" where
  "truthy s = (case s of None \<Rightarrow> False | Some t \<Rightarrow> t \<noteq> [])"

text \<open>
  Numbers as a comparison sees them, and the values a field of a provider's response can
  hold. A JSON number is given by the (rational) value of the double it parses to. A
  string, array or object is given by the number \<open>ToNumber\<close> makes of it, which is all
  a comparison with a number reads of it. \<open>ToNumber\<close> makes \<open>NaN\<close> of \<open>undefined\<close>, 0 of
  \<open>null\<close> and of \<open>false\<close>, 1 of \<open>true\<close>; \<open>x < k\<close> is false when \<open>x\<close> converts to \<open>NaN\<close>.
\<close>

datatype jsnumber = NaN | NegInfinity | Finite rat | PosInfinity

datatype jsvalue = JUndefined | JNull | JBool bool | JNumber rat | JOther jsnumber

fun toNumber :: "jsvalue \<Rightarrow> jsnumber" where
  "toNumber JUndefined = NaN"
| "toNumber JNull = Finite 0"
| "toNumber (JBool b) = Finite (if b then 1 else 0)"
| "toNumber (JNumber q) = Finite q"
| "toNumber (JOther n) = n"

fun lessThanNumber :: "jsnumber \<Rightarrow> rat \<Rightarrow> bool" where
  "lessThanNumber NaN k = False"
| "lessThanNumber NegInfinity k = True"
| "lessThanNumber (Finite q) k = (q < k)"
| "lessThanNumber PosInfinity k = False"

text \<open>
  A step outcome \<open>{status, result?, error?}\<close>. The top-level workflow also stamps each
  outcome with \<open>completedAt\<close>.
\<close>

record 'r stepOutcome =
  status :: string
  result :: "'r option"
  error :: "string option"

record 'r timedOutcome = "'r stepOutcome" +
  stepCompletedAt :: string

text \<open>
  The settled state of a promise, as \<open>Promise.allSettled\<close> reports it: fulfilled with a
  value, or rejected with a reason. A reason is an error object, of which only the
  \<open>message\<close> is read; the message may be missing. An \<open>async\<close> function never throws to
  its caller: the error its body throws rejects the promise it returns.
\<close>

datatype 'a settled = Fulfilled 'a | Rejected "string option"

definition async :: "string + 'r \<Rightarrow> 'r settled" where
  "async body = (case body of Inl m \<Rightarrow> Rejected (Some m) | Inr r \<Rightarrow> Fulfilled r)"

fun thenP :: "('a \<Rightarrow> 'b) \<Rightarrow> 'a settled \<Rightarrow> 'b settled" where
  "thenP f (Fulfilled r) = Fulfilled (f r)"
| "thenP f (Rejected e) = Rejected e"

fun catchP :: "(string option \<Rightarrow> 'a) \<Rightarrow> 'a settled \<Rightarrow> 'a settled" where
  "catchP g (Fulfilled v) = Fulfilled v"
| "catchP g (Rejected e) = Fulfilled (g e)"

text \<open>The value \<open>{type, result}\<close> or \<open>{type, error}\<close> a wrapped step promise resolves to.\<close>

record 'r tagged =
  tag :: string
  t_result :: "'r option"
  t_error :: "string option"

definition wrapStep :: "string \<Rightarrow> string + 'r \<Rightarrow> 'r tagged settled" where
  "wrapStep ty body =
     catchP (\<lambda>e. \<lparr>tag = ty, t_result = None, t_error = e\<rparr>)
       (thenP (\<lambda>r. \<lparr>tag = ty, t_result = Some r, t_error = None\<rparr>) (async body))"

text \<open>
  The loop over the settled results (\<open>forEach((r, index) => ...)\<close>), the same in both
  fan-outs but for the array of names the rejected branch indexes. \<open>types[index]\<close> beyond
  the array is \<open>undefined\<close>, which as a key reads \<open>undefined\<close>.
\<close>

definition typeAt :: "string list \<Rightarrow> nat \<Rightarrow> string" where
  "typeAt types i = (if i < length types then types ! i else ''undefined'')"

definition reasonMessage :: "string option \<Rightarrow> string" where
  "reasonMessage reason = (if truthy reason then the reason else ''Unknown error'')"

fun processSettled ::
  "string list \<Rightarrow> nat \<Rightarrow> 'r tagged settled list \<Rightarrow> 'r stepOutcome obj \<Rightarrow> 'r stepOutcome obj"
where
  "processSettled types i [] acc = acc"
| "processSettled types i (Fulfilled v # rest) acc =
     processSettled types (Suc i) rest
       (assign acc (tag v)
          (if truthy (t_error v)
           then \<lparr>status = ''failed'', result = None, error = t_error v\<rparr>
           else \<lparr>status = ''completed'', result = t_result v, error = None\<rparr>))"
| "processSettled types i (Rejected reason # rest) acc =
     processSettled types (Suc i) rest
       (assign acc (typeAt types i)
          \<lparr>status = ''failed'', result = None, error = Some (reasonMessage reason)\<rparr>)"

section \<open>Overall status of a run\<close>

text \<open>
  The three workflows derive the overall status from the recorded outcomes with the same
  statements: the number of values whose status is \<open>completed\<close>, the number of keys, and
  the comparison of the two, equality first.
\<close>

definition completedCount :: "('r, 'z) stepOutcome_scheme obj \<Rightarrow> nat" where
  "completedCount steps = length (filter (\<lambda>s. status s = ''completed'') (map snd steps))"

definition determineOverallStatus :: "('r, 'z) stepOutcome_scheme obj \<Rightarrow> string" where
  "determineOverallStatus steps =
     (let completedSteps = completedCount steps;
          totalSteps = length (map fst steps)
      in if completedSteps = totalSteps then ''completed''
         else if completedSteps > 0 then ''partial''
         else ''failed'')"

section \<open>The subject\<close>

text \<open>
  The driver record the workflows read. Text fields are optional strings. The records
  carry the fields the orchestration passes on to the providers; the list of previous
  addresses and the contact fields only the payment provider reads are left out.
\<close>

record personalInfo =
  firstName :: "string option"
  lastName :: "string option"
  dateOfBirth :: "string option"
  ssn :: "string option"

record driverInfo =
  driverLicenseNumber :: "string option"
  licenseState :: "string option"
  licenseClass :: "string option"

record vehicleInfo =
  vin :: "string option"
  vehicleMake :: "string option"
  vehicleModel :: "string option"
  vehicleYear :: "string option"
  licensePlate :: "string option"

record businessInfo =
  businessName :: "string option"
  businessType :: "string option"
  ein :: "string option"
  address :: "string option"

record insuranceInfo =
  policyNumber :: "string option"
  insuranceCompany :: "string option"
  effectiveDate :: "string option"
  expirationDate :: "string option"

record employmentInfo =
  employerName :: "string option"
  position :: "string option"

record driverData =
  d_id :: "string option"
  personalInfo :: personalInfo
  driverInfo :: driverInfo
  vehicleInfo :: "vehicleInfo option"
  businessInfo :: "businessInfo option"
  insuranceInfo :: "insuranceInfo option"
  employmentInfo :: "employmentInfo option"
  subscriptionPlan :: string
  stripeCustomerId :: "string option"

section \<open>Provider results\<close>

text \<open>
  What a background check returns, by the \<open>summary\<close> each adapter builds:
  criminal (totalRecords, hasCriminalHistory, hasArrests, hasWarrants),
  driving (totalViolations, totalAccidents, hasSuspensions, hasRevocations, points),
  employment (verified, employmentConfirmed, datesConfirmed, positionConfirmed),
  credit (creditScore, hasCreditHistory, totalAccounts, delinquentAccounts).
\<close>

datatype checkResult =
    CriminalResult nat bool bool bool
  | DrivingResult nat nat bool bool nat
  | EmploymentResult bool bool bool bool
  | CreditResult "nat option" bool nat nat

text \<open>
  What an insurance verification returns, as far as the summary reads it:
  \<open>policyStatus\<close> is \<open>result.policyDetails?.status\<close> when that is a string (\<open>None\<close>
  when the path is \<open>undefined\<close> or holds anything else, which no string equals), and
  \<open>liability\<close> is the value of \<open>result.coverage?.liability\<close>, \<open>JUndefined\<close> where the
  path is \<open>undefined\<close>.
\<close>

record verificationResult =
  verificationId :: "string option"
  policyStatus :: "string option"
  liability :: jsvalue

record paymentResult =
  customerId :: string
  paymentIntentId :: string
  plan :: string

record documentResult =
  totalDocuments :: nat
  storageBucket :: "string option"

section \<open>The environment\<close>

text \<open>
  Everything outside the orchestration: the clock, the process configuration and the
  providers. For each adapter the environment gives the outcome of the adapter's
  \<open>try\<close> block (configuration check, request, normalisation of the response) on a
  request: \<open>Inr\<close> the value it returns, \<open>Inl\<close> the message of the error it throws.
\<close>

record env =
  now :: string
  enableCreditCheck :: bool
  firebaseInitialized :: bool
  criminalRequest :: "personalInfo \<Rightarrow> string + checkResult"
  drivingRequest :: "driverInfo \<Rightarrow> string + checkResult"
  employmentRequest :: "employmentInfo option \<Rightarrow> string + checkResult"
  creditRequest :: "personalInfo \<Rightarrow> string + checkResult"
  policyRequest :: "insuranceInfo \<Rightarrow> personalInfo \<Rightarrow> string + verificationResult"
  driverSearchRequest ::
    "personalInfo \<Rightarrow> driverInfo \<Rightarrow> vehicleInfo option \<Rightarrow> string + verificationResult"
  vehicleRequest :: "vehicleInfo \<Rightarrow> string + verificationResult"
  commercialRequest ::
    "businessInfo \<Rightarrow> personalInfo \<Rightarrow> vehicleInfo option \<Rightarrow> string + verificationResult"
  paymentRequest :: "driverData \<Rightarrow> string + paymentResult"
  uploadRequest :: "driverData \<Rightarrow> string + documentResult"

text \<open>An adapter's \<open>catch\<close> rethrows with the adapter's prefix before the message.\<close>

definition rethrow :: "string \<Rightarrow> string + 'r \<Rightarrow> string + 'r" where
  "rethrow prefix body = (case body of Inl m \<Rightarrow> Inl (prefix @ m) | Inr r \<Rightarrow> Inr r)"

section \<open>Background check service\<close>

definition performCriminalBackgroundCheck :: "env \<Rightarrow> personalInfo \<Rightarrow> string + checkResult" where
  "performCriminalBackgroundCheck e p =
     rethrow ''Criminal background check failed: '' (criminalRequest e p)"

definition performDrivingRecordCheck :: "env \<Rightarrow> driverInfo \<Rightarrow> string + checkResult" where
  "performDrivingRecordCheck e d =
     rethrow ''Driving record check failed: '' (drivingRequest e d)"

definition performEmploymentVerification ::
  "env \<Rightarrow> employmentInfo option \<Rightarrow> string + checkResult" where
  "performEmploymentVerification e emp =
     rethrow ''Employment verification failed: '' (employmentRequest e emp)"

definition performCreditCheck :: "env \<Rightarrow> personalInfo \<Rightarrow> string + checkResult" where
  "performCreditCheck e p = rethrow ''Credit check failed: '' (creditRequest e p)"

record backgroundSummary =
  totalChecks :: nat
  completedChecks :: nat
  failedChecks :: nat
  riskLevel :: string
  flags :: "string list"
  recommendations :: "string list"

text \<open>
  The three tests of \<open>generateSummary\<close> on a completed check's result. A field that is
  missing reads \<open>undefined\<close>: it is false as a condition, \<open>undefined > 3\<close> is false, and
  \<open>!undefined\<close> is true.
\<close>

fun hasCriminalHistory :: "checkResult option \<Rightarrow> bool" where
  "hasCriminalHistory (Some (CriminalResult n h a w)) = h"
| "hasCriminalHistory _ = False"

fun totalViolationsOver3 :: "checkResult option \<Rightarrow> bool" where
  "totalViolationsOver3 (Some (DrivingResult v a s r p)) = (v > 3)"
| "totalViolationsOver3 _ = False"

fun notVerified :: "checkResult option \<Rightarrow> bool" where
  "notVerified (Some (EmploymentResult v c d p)) = (\<not> v)"
| "notVerified _ = True"

text \<open>The body of the loop over \<open>Object.entries(checks)\<close>.\<close>

definition summariseCheck ::
  "string \<times> checkResult stepOutcome \<Rightarrow> backgroundSummary \<Rightarrow> backgroundSummary" where
  "summariseCheck entry summary =
     (let ty = fst entry; check = snd entry in
      if status check = ''completed'' then
        (let s0 = summary\<lparr>completedChecks := completedChecks summary + 1\<rparr>;
             s1 = (if ty = ''criminal'' \<and> hasCriminalHistory (result check)
                   then s0\<lparr>flags := flags s0 @ [''Criminal history detected''],
                           riskLevel := ''high''\<rparr>
                   else s0);
             s2 = (if ty = ''driving'' \<and> totalViolationsOver3 (result check)
                   then s1\<lparr>flags := flags s1 @ [''Multiple driving violations''],
                           riskLevel := ''medium''\<rparr>
                   else s1);
             s3 = (if ty = ''employment'' \<and> notVerified (result check)
                   then s2\<lparr>flags := flags s2 @ [''Employment verification failed''],
                           riskLevel := ''medium''\<rparr>
                   else s2)
         in s3)
      else summary\<lparr>failedChecks := failedChecks summary + 1\<rparr>)"

definition generateSummary :: "checkResult stepOutcome obj \<Rightarrow> backgroundSummary" where
  "generateSummary checks =
     (let summary = fold summariseCheck checks
            \<lparr>totalChecks = length (map fst checks), completedChecks = 0, failedChecks = 0,
             riskLevel = ''low'', flags = [], recommendations = []\<rparr>
      in if riskLevel summary = ''high'' then
           summary\<lparr>recommendations := recommendations summary
             @ [''Manual review required'', ''Additional documentation may be needed'']\<rparr>
         else if riskLevel summary = ''medium'' then
           summary\<lparr>recommendations := recommendations summary
             @ [''Review specific flagged items'', ''Consider additional verification'']\<rparr>
         else
           summary\<lparr>recommendations := recommendations summary
             @ [''Standard onboarding process'']\<rparr>)"

record backgroundResults =
  bc_driverId :: "string option"
  bc_startedAt :: string
  checks :: "checkResult stepOutcome obj"
  bc_overallStatus :: string
  bc_summary :: backgroundSummary
  bc_completedAt :: string

definition checkPromises :: "env \<Rightarrow> driverData \<Rightarrow> checkResult tagged settled list" where
  "checkPromises e d =
     [wrapStep ''criminal'' (performCriminalBackgroundCheck e (personalInfo d)),
      wrapStep ''driving'' (performDrivingRecordCheck e (driverInfo d)),
      wrapStep ''employment'' (performEmploymentVerification e (employmentInfo d))]
     @ (if enableCreditCheck e
        then [wrapStep ''credit'' (performCreditCheck e (personalInfo d))]
        else [])"

definition checkTypes :: "string list" where
  "checkTypes = [''criminal'', ''driving'', ''employment'', ''credit'']"

text \<open>
  No statement of the body outside the wrapped calls throws on a subject of this type,
  so the function's own \<open>catch\<close> (which rethrows) is never entered and the result is
  always \<open>Inr\<close>.
\<close>

definition performComprehensiveBackgroundCheck ::
  "env \<Rightarrow> driverData \<Rightarrow> string + backgroundResults" where
  "performComprehensiveBackgroundCheck e d =
     (let checkResults = checkPromises e d;
          cs = processSettled checkTypes 0 checkResults []
      in Inr \<lparr>bc_driverId = d_id d, bc_startedAt = now e, checks = cs,
              bc_overallStatus = determineOverallStatus cs,
              bc_summary = generateSummary cs,
              bc_completedAt = now e\<rparr>)"

section \<open>Insurance verification service\<close>

definition verifyPolicyByNumber ::
  "env \<Rightarrow> insuranceInfo \<Rightarrow> personalInfo \<Rightarrow> string + verificationResult" where
  "verifyPolicyByNumber e i p =
     rethrow ''Insurance verification failed: '' (policyRequest e i p)"

definition verifyInsuranceByDriver ::
  "env \<Rightarrow> personalInfo \<Rightarrow> driverInfo \<Rightarrow> vehicleInfo option \<Rightarrow> string + verificationResult"
where
  "verifyInsuranceByDriver e p d v =
     rethrow ''Insurance verification failed: '' (driverSearchRequest e p d v)"

definition verifyVehicleInsurance :: "env \<Rightarrow> vehicleInfo \<Rightarrow> string + verificationResult" where
  "verifyVehicleInsurance e v =
     rethrow ''Vehicle insurance verification failed: '' (vehicleRequest e v)"

definition verifyCommercialInsurance ::
  "env \<Rightarrow> businessInfo \<Rightarrow> personalInfo \<Rightarrow> vehicleInfo option \<Rightarrow> string + verificationResult"
where
  "verifyCommercialInsurance e b p v =
     rethrow ''Commercial insurance verification failed: '' (commercialRequest e b p v)"

record insuranceSummary =
  totalVerifications :: nat
  completedVerifications :: nat
  failedVerifications :: nat
  coverageStatus :: string
  iv_flags :: "string list"
  iv_recommendations :: "string list"

text \<open>
  The state of the loop of \<open>generateVerificationSummary\<close>: the summary under
  construction and the three local flags.
\<close>

record coverageScan =
  scanSummary :: insuranceSummary
  hasActiveInsurance :: bool
  hasExpiredInsurance :: bool
  hasInsufficientCoverage :: bool

definition policyStatusOf :: "verificationResult option \<Rightarrow> string option" where
  "policyStatusOf r = (case r of None \<Rightarrow> None | Some x \<Rightarrow> policyStatus x)"

text \<open>\<open>verification.result?.coverage?.liability < 50000\<close>.\<close>

definition liabilityUnderFloor :: "verificationResult option \<Rightarrow> bool" where
  "liabilityUnderFloor r =
     lessThanNumber (toNumber (case r of None \<Rightarrow> JUndefined | Some x \<Rightarrow> liability x)) 50000"

definition scanVerification ::
  "string \<times> verificationResult stepOutcome \<Rightarrow> coverageScan \<Rightarrow> coverageScan" where
  "scanVerification entry scan =
     (let ty = fst entry; verification = snd entry; summary = scanSummary scan in
      if status verification = ''completed'' then
        (let c0 = scan\<lparr>scanSummary :=
                    summary\<lparr>completedVerifications := completedVerifications summary + 1\<rparr>\<rparr>;
             c1 = (if ty = ''policy'' \<and> policyStatusOf (result verification) = Some ''active''
                   then c0\<lparr>hasActiveInsurance := True\<rparr> else c0);
             c2 = (if ty = ''policy'' \<and> policyStatusOf (result verification) = Some ''expired''
                   then c1\<lparr>hasExpiredInsurance := True\<rparr> else c1);
             c3 = (if ty = ''policy'' \<and> liabilityUnderFloor (result verification)
                   then c2\<lparr>hasInsufficientCoverage := True\<rparr> else c2)
         in c3)
      else scan\<lparr>scanSummary :=
                  summary\<lparr>failedVerifications := failedVerifications summary + 1\<rparr>\<rparr>)"

definition generateVerificationSummary ::
  "verificationResult stepOutcome obj \<Rightarrow> insuranceSummary" where
  "generateVerificationSummary verifications =
     (let scan = fold scanVerification verifications
            \<lparr>scanSummary =
               \<lparr>totalVerifications = length (map fst verifications),
                completedVerifications = 0, failedVerifications = 0,
                coverageStatus = ''unknown'', iv_flags = [], iv_recommendations = []\<rparr>,
             hasActiveInsurance = False, hasExpiredInsurance = False,
             hasInsufficientCoverage = False\<rparr>;
          summary = scanSummary scan;
          s1 = (if hasActiveInsurance scan \<and> \<not> hasExpiredInsurance scan
                   \<and> \<not> hasInsufficientCoverage scan then
                  summary\<lparr>coverageStatus := ''adequate''\<rparr>
                else if hasActiveInsurance scan \<and> hasInsufficientCoverage scan then
                  summary\<lparr>coverageStatus := ''insufficient'',
                          iv_flags := iv_flags summary @ [''Insufficient liability coverage'']\<rparr>
                else if hasExpiredInsurance scan then
                  summary\<lparr>coverageStatus := ''expired'',
                          iv_flags := iv_flags summary @ [''Insurance policy expired'']\<rparr>
                else
                  summary\<lparr>coverageStatus := ''unknown'',
                          iv_flags := iv_flags summary @ [''Unable to verify insurance status'']\<rparr>)
      in if coverageStatus s1 = ''adequate'' then
           s1\<lparr>iv_recommendations := iv_recommendations s1
             @ [''Insurance verification passed'', ''Standard onboarding process'']\<rparr>
         else if coverageStatus s1 = ''insufficient'' then
           s1\<lparr>iv_recommendations := iv_recommendations s1
             @ [''Increase liability coverage'', ''Contact insurance provider'']\<rparr>
         else if coverageStatus s1 = ''expired'' then
           s1\<lparr>iv_recommendations := iv_recommendations s1
             @ [''Renew insurance policy'', ''Provide updated certificate'']\<rparr>
         else
           s1\<lparr>iv_recommendations := iv_recommendations s1
             @ [''Manual verification required'', ''Provide additional documentation'']\<rparr>)"

record insuranceResults =
  iv_driverId :: "string option"
  iv_startedAt :: string
  verifications :: "verificationResult stepOutcome obj"
  iv_overallStatus :: string
  iv_summary :: insuranceSummary
  iv_completedAt :: string

text \<open>
  The promises pushed, in the order of the four statements. Each guard is an optional
  chain read as a condition: \<open>insuranceInfo?.policyNumber\<close>, \<open>vehicleInfo?.vin\<close>,
  \<open>businessInfo?.businessName\<close>.
\<close>

definition verificationPromises ::
  "env \<Rightarrow> driverData \<Rightarrow> verificationResult tagged settled list" where
  "verificationPromises e d =
     (case insuranceInfo d of
        None \<Rightarrow> []
      | Some i \<Rightarrow>
          if truthy (policyNumber i)
          then [wrapStep ''policy'' (verifyPolicyByNumber e i (personalInfo d))]
          else [])
     @ [wrapStep ''driver''
          (verifyInsuranceByDriver e (personalInfo d) (driverInfo d) (vehicleInfo d))]
     @ (case vehicleInfo d of
          None \<Rightarrow> []
        | Some v \<Rightarrow>
            if truthy (vin v) then [wrapStep ''vehicle'' (verifyVehicleInsurance e v)] else [])
     @ (case businessInfo d of
          None \<Rightarrow> []
        | Some b \<Rightarrow>
            if truthy (businessName b)
            then [wrapStep ''commercial''
                    (verifyCommercialInsurance e b (personalInfo d) (vehicleInfo d))]
            else [])"

definition verificationTypes :: "string list" where
  "verificationTypes = [''policy'', ''driver'', ''vehicle'', ''commercial'']"

text \<open>
  As for the background check, nothing outside the wrapped calls throws on a subject of
  this type (its \<open>personalInfo\<close> and \<open>driverInfo\<close> are always objects), so the result is
  always \<open>Inr\<close>.
\<close>

definition performComprehensiveInsuranceVerification ::
  "env \<Rightarrow> driverData \<Rightarrow> string + insuranceResults" where
  "performComprehensiveInsuranceVerification e d =
     (let verificationResults = verificationPromises e d;
          vs = processSettled verificationTypes 0 verificationResults []
      in Inr \<lparr>iv_driverId = d_id d, iv_startedAt = now e, verifications = vs,
              iv_overallStatus = determineOverallStatus vs,
              iv_summary = generateVerificationSummary vs,
              iv_completedAt = now e\<rparr>)"

section \<open>The store\<close>

datatype stepResult =
    BackgroundCheckResult backgroundResults
  | InsuranceResult insuranceResults
  | PaymentResult paymentResult
  | DocumentResult documentResult
  | DatabaseResult nat

record onboardingSummary =
  totalSteps :: nat
  completedSteps :: nat
  failedSteps :: nat
  pendingSteps :: nat
  ob_riskLevel :: string
  ob_flags :: "string list"
  estimatedCompletion :: string

text \<open>
  A stored value: SQL \<open>NULL\<close>, text, a number, or the text \<open>JSON.stringify\<close> makes of a
  step result, of a run's summary (\<open>None\<close> is the empty object the run starts with) or
  of its recommendations; a JSON text is kept as the value it was written from. A row
  maps column names to values.
\<close>

datatype jsonDoc =
    StepJson stepResult
  | SummaryJson "onboardingSummary option"
  | RecommendationsJson "string list"

datatype sqlval = SqlNull | SqlText string | SqlInt nat | SqlJson jsonDoc

type_synonym row = "string \<rightharpoonup> sqlval"

text \<open>
  The declarations of \<open>onboarding_records\<close> and of the columns written in
  \<open>driver_profiles\<close> are not part of the sources, so a table carries its declared
  columns as a parameter, under the names the catalogue holds. A statement that names a
  column the table does not have fails and writes nothing.

  Every identifier in the service's statements is written without quotes; the database
  folds such an identifier to lower case and cuts it to 63 bytes before it looks it up.
  (A name interpolated into a statement is read so only if it is made of letters, digits
  and underscores, as the four step names passed by \<open>retryOnboardingStep\<close> are.)
\<close>

record table =
  columns :: "string list"
  rows :: "row list"

definition lowerChar :: "char \<Rightarrow> char" where
  "lowerChar c =
     (case map_of (zip ''ABCDEFGHIJKLMNOPQRSTUVWXYZ'' ''abcdefghijklmnopqrstuvwxyz'') c of
        None \<Rightarrow> c
      | Some l \<Rightarrow> l)"

definition foldIdentifier :: "string \<Rightarrow> string" where
  "foldIdentifier s = take 63 (map lowerChar s)"

definition missingColumn :: "table \<Rightarrow> string list \<Rightarrow> string option" where
  "missingColumn t cs = find (\<lambda>c. c \<notin> set (columns t)) (map foldIdentifier cs)"

definition assignments :: "(string \<times> sqlval) list \<Rightarrow> (string \<times> sqlval) list" where
  "assignments sets = map (\<lambda>cv. (foldIdentifier (fst cv), snd cv)) sets"

definition columnError :: "string \<Rightarrow> string" where
  "columnError c = ''column '' @ c @ '' does not exist''"

text \<open>
  \<open>UPDATE t SET c1 = v1, ... WHERE w = x\<close>. A comparison with \<open>NULL\<close> selects no row.
\<close>

definition sql_update ::
  "table \<Rightarrow> (string \<times> sqlval) list \<Rightarrow> string \<Rightarrow> sqlval \<Rightarrow> string + table" where
  "sql_update t sets wcol wval =
     (case missingColumn t (map fst sets @ [wcol]) of
        Some c \<Rightarrow> Inl (columnError c)
      | None \<Rightarrow>
          Inr (t\<lparr>rows :=
                 map (\<lambda>r. if wval \<noteq> SqlNull \<and> r (foldIdentifier wcol) = Some wval
                          then r ++ map_of (assignments sets) else r)
                   (rows t)\<rparr>))"

text \<open>
  \<open>INSERT INTO t (c1, ...) VALUES (v1, ...) RETURNING id\<close>: the new row is the last, and
  its \<open>id\<close> is the next number.
\<close>

definition sql_insert :: "table \<Rightarrow> (string \<times> sqlval) list \<Rightarrow> string + (nat \<times> table)" where
  "sql_insert t vals =
     (case missingColumn t (map fst vals @ [''id'']) of
        Some c \<Rightarrow> Inl (columnError c)
      | None \<Rightarrow>
          (let newId = Suc (length (rows t))
           in Inr (newId,
                   t\<lparr>rows := rows t @ [map_of ((''id'', SqlInt newId) # assignments vals)]\<rparr>)))"

text \<open>
  The world the integration service acts on: the answer of the driver query (the join of
  users, profiles, vehicles and background checks) for a driver id, which is the error
  the query fails with or the rows it returns, each as the client presents it, with one
  value per column name; the two tables the service writes; and the step adapters it has
  invoked so far (oldest first).
\<close>

record world =
  driver_query :: "string \<Rightarrow> string + row list"
  driver_profiles :: table
  onboarding_records :: table
  invoked :: "string list"

definition textOf :: "row \<Rightarrow> string \<Rightarrow> string option" where
  "textOf r c = (case r c of Some (SqlText s) \<Rightarrow> Some s | _ \<Rightarrow> None)"

definition optText :: "string option \<Rightarrow> sqlval" where
  "optText s = (case s of None \<Rightarrow> SqlNull | Some t \<Rightarrow> SqlText t)"

section \<open>Integration service\<close>

record onboardingResult =
  driverId :: "string option"
  startedAt :: string
  steps :: "stepResult timedOutcome obj"
  overallStatus :: string
  summary :: "onboardingSummary option"
  ob_recommendations :: "string list"
  completedAt :: "string option"

text \<open>\<open>steps.name?.status\<close>: the status recorded under a key, if the key is there.\<close>

definition statusAt :: "('r, 'z) stepOutcome_scheme obj \<Rightarrow> string \<Rightarrow> string option" where
  "statusAt ss k = map_option status (map_of ss k)"

definition countStep ::
  "string \<times> stepResult timedOutcome \<Rightarrow> onboardingSummary \<Rightarrow> onboardingSummary" where
  "countStep entry s =
     (if status (snd entry) = ''completed'' then s\<lparr>completedSteps := completedSteps s + 1\<rparr>
      else if status (snd entry) = ''failed'' then s\<lparr>failedSteps := failedSteps s + 1\<rparr>
      else s\<lparr>pendingSteps := pendingSteps s + 1\<rparr>)"

definition generateOnboardingSummary :: "stepResult timedOutcome obj \<Rightarrow> onboardingSummary" where
  "generateOnboardingSummary ss =
     (let s0 = fold countStep ss
            \<lparr>totalSteps = length (map fst ss), completedSteps = 0, failedSteps = 0,
             pendingSteps = 0, ob_riskLevel = ''low'', ob_flags = [],
             estimatedCompletion = []\<rparr>;
          s1 = (if failedSteps s0 > 2 then
                  s0\<lparr>ob_riskLevel := ''high'',
                     ob_flags := ob_flags s0 @ [''Multiple critical steps failed'']\<rparr>
                else if failedSteps s0 > 0 then
                  s0\<lparr>ob_riskLevel := ''medium'',
                     ob_flags := ob_flags s0 @ [''Some steps require attention'']\<rparr>
                else s0)
      in if pendingSteps s1 = 0 then s1\<lparr>estimatedCompletion := ''Immediate''\<rparr>
         else if pendingSteps s1 \<le> 2 then s1\<lparr>estimatedCompletion := ''1-2 business days''\<rparr>
         else s1\<lparr>estimatedCompletion := ''3-5 business days''\<rparr>)"

text \<open>The closing test \<open>completedSteps > totalSteps / 2\<close> is written without the division.\<close>

definition generateOnboardingRecommendations :: "stepResult timedOutcome obj \<Rightarrow> string list" where
  "generateOnboardingRecommendations ss =
     (if statusAt ss ''backgroundCheck'' = Some ''failed''
      then [''Review background check requirements'',
            ''Provide additional identification documents'']
      else [])
     @ (if statusAt ss ''insuranceVerification'' = Some ''failed''
        then [''Verify insurance policy information'',
              ''Ensure policy is active and not expired'',
              ''Check coverage limits meet requirements'']
        else [])
     @ (if statusAt ss ''payment'' = Some ''failed''
        then [''Verify payment method information'',
              ''Ensure sufficient funds are available'',
              ''Check for any payment restrictions'']
        else [])
     @ (if statusAt ss ''documentStorage'' = Some ''failed''
        then [''Ensure all required documents are provided'',
              ''Check document format and size requirements'',
              ''Verify document authenticity'']
        else [])
     @ (let completed = completedCount ss; total = length (map fst ss)
        in if completed = total
           then [''Onboarding completed successfully'', ''Driver is ready for activation'']
           else if 2 * completed > total
           then [''Onboarding is mostly complete'', ''Address remaining issues to finish'']
           else [''Onboarding requires significant attention'',
                 ''Manual review may be necessary''])"

text \<open>The two adapters of the service itself; their \<open>catch\<close> rethrows the error as it is.\<close>

definition processOnboardingPayment :: "env \<Rightarrow> driverData \<Rightarrow> string + paymentResult" where
  "processOnboardingPayment e d = paymentRequest e d"

definition storeDriverDocuments :: "env \<Rightarrow> driverData \<Rightarrow> string + documentResult" where
  "storeDriverDocuments e d =
     (if \<not> firebaseInitialized e then Inl ''Firebase not initialized'' else uploadRequest e d)"

text \<open>\<open>steps.name?.status || 'pending'\<close>, a parameter of the insert.\<close>

definition statusOrPending :: "('r, 'z) stepOutcome_scheme obj \<Rightarrow> string \<Rightarrow> string" where
  "statusOrPending ss k = (if truthy (statusAt ss k) then the (statusAt ss k) else ''pending'')"

text \<open>
  \<open>updateOnboardingStatus\<close>: one transaction that updates the driver's profile and
  inserts the onboarding record. If either statement fails the transaction is rolled
  back, nothing is written and the error is thrown. A parameter that is \<open>undefined\<close> is
  stored as \<open>NULL\<close>.
\<close>

definition updateOnboardingStatus ::
  "env \<Rightarrow> world \<Rightarrow> string option \<Rightarrow> onboardingResult \<Rightarrow> (string + nat) \<times> world" where
  "updateOnboardingStatus e w driver r =
     (case sql_update (driver_profiles w)
             [(''onboarding_status'', SqlText (overallStatus r)),
              (''onboarding_completed_at'', optText (completedAt r)),
              (''updated_at'', SqlText (now e))]
             ''user_id'' (optText driver) of
        Inl m \<Rightarrow> (Inl m, w)
      | Inr profiles \<Rightarrow>
          (case sql_insert (onboarding_records w)
                  [(''driver_id'', optText driver),
                   (''overall_status'', SqlText (overallStatus r)),
                   (''background_check_status'',
                      SqlText (statusOrPending (steps r) ''backgroundCheck'')),
                   (''insurance_status'',
                      SqlText (statusOrPending (steps r) ''insuranceVerification'')),
                   (''payment_status'', SqlText (statusOrPending (steps r) ''payment'')),
                   (''document_status'',
                      SqlText (statusOrPending (steps r) ''documentStorage'')),
                   (''database_status'',
                      SqlText (statusOrPending (steps r) ''databaseUpdate'')),
                   (''started_at'', SqlText (startedAt r)),
                   (''completed_at'', optText (completedAt r)),
                   (''summary_data'', SqlJson (SummaryJson (summary r))),
                   (''recommendations'', SqlJson (RecommendationsJson (ob_recommendations r)))] of
             Inl m \<Rightarrow> (Inl m, w)
           | Inr (newId, records) \<Rightarrow>
               (Inr newId, w\<lparr>driver_profiles := profiles, onboarding_records := records\<rparr>)))"

text \<open>The \<open>try\<close>/\<open>catch\<close> around each step of the complete onboarding.\<close>

definition captureStep :: "env \<Rightarrow> string + stepResult \<Rightarrow> stepResult timedOutcome" where
  "captureStep e body =
     (case body of
        Inr x \<Rightarrow> \<lparr>status = ''completed'', result = Some x, error = None,
                  stepCompletedAt = now e\<rparr>
      | Inl m \<Rightarrow> \<lparr>status = ''failed'', result = None, error = Some m,
                  stepCompletedAt = now e\<rparr>)"

definition invoke :: "string \<Rightarrow> world \<Rightarrow> world" where
  "invoke name w = w\<lparr>invoked := invoked w @ [name]\<rparr>"

definition performCompleteOnboarding ::
  "env \<Rightarrow> world \<Rightarrow> driverData \<Rightarrow> onboardingResult \<times> world" where
  "performCompleteOnboarding e w d =
     (let r0 = \<lparr>driverId = d_id d, startedAt = now e, steps = [],
                overallStatus = ''pending'', summary = None, ob_recommendations = [],
                completedAt = None\<rparr>;
          w1 = invoke ''backgroundCheck'' w;
          r1 = r0\<lparr>steps := assign (steps r0) ''backgroundCheck''
                 (captureStep e (map_sum id BackgroundCheckResult
                    (performComprehensiveBackgroundCheck e d)))\<rparr>;
          w2 = invoke ''insuranceVerification'' w1;
          r2 = r1\<lparr>steps := assign (steps r1) ''insuranceVerification''
                 (captureStep e (map_sum id InsuranceResult
                    (performComprehensiveInsuranceVerification e d)))\<rparr>;
          w3 = invoke ''payment'' w2;
          r3 = r2\<lparr>steps := assign (steps r2) ''payment''
                 (captureStep e (map_sum id PaymentResult (processOnboardingPayment e d)))\<rparr>;
          w4 = invoke ''documentStorage'' w3;
          r4 = r3\<lparr>steps := assign (steps r3) ''documentStorage''
                 (captureStep e (map_sum id DocumentResult (storeDriverDocuments e d)))\<rparr>;
          (databaseResult, w5) = updateOnboardingStatus e w4 (d_id d) r4;
          r5 = r4\<lparr>steps := assign (steps r4) ''databaseUpdate''
                 (captureStep e (map_sum id DatabaseResult databaseResult))\<rparr>
      in (r5\<lparr>overallStatus := determineOverallStatus (steps r5),
              completedAt := Some (now e),
              summary := Some (generateOnboardingSummary (steps r5)),
              ob_recommendations := generateOnboardingRecommendations (steps r5)\<rparr>,
          w5))"

text \<open>
  \<open>getOnboardingStatus\<close>: \<open>SELECT * FROM onboarding_records WHERE driver_id = $1 ORDER BY
  created_at DESC LIMIT 1\<close>. The query fails, and the function rethrows, when the table
  lacks one of the two columns it names. Otherwise the answer is the latest record of the
  driver (the rows are kept in the order they were created), or the \<open>not_started\<close>
  answer when there is none.
\<close>

datatype onboardingStatus = NotStarted string | StatusRecord row

definition getOnboardingStatus :: "world \<Rightarrow> string \<Rightarrow> string + onboardingStatus" where
  "getOnboardingStatus w driver =
     (case missingColumn (onboarding_records w) [''driver_id'', ''created_at''] of
        Some c \<Rightarrow> Inl (columnError c)
      | None \<Rightarrow>
          (case rev (filter (\<lambda>r. r ''driver_id'' = Some (SqlText driver))
                       (rows (onboarding_records w))) of
             [] \<Rightarrow> Inr (NotStarted driver)
           | latest # _ \<Rightarrow> Inr (StatusRecord latest)))"

text \<open>
  \<open>getDriverData\<close>: the error of the driver query is rethrown; no row is \<open>Driver not
  found\<close>; otherwise the first row is made into the subject. Its \<open>id\<close> is the row's
  \<open>id\<close>, whichever of the joined tables that column name came from. A nested object is
  present exactly when the column that guards it is a non-empty text. No
  \<open>employmentInfo\<close> is built.
\<close>

definition getDriverData :: "world \<Rightarrow> string \<Rightarrow> string + driverData" where
  "getDriverData w driver =
     (case driver_query w driver of
        Inl m \<Rightarrow> Inl m
      | Inr [] \<Rightarrow> Inl ''Driver not found''
      | Inr (r # _) \<Rightarrow>
          Inr \<lparr>d_id = textOf r ''id'',
               personalInfo =
                 \<lparr>firstName = textOf r ''first_name'', lastName = textOf r ''last_name'',
                  dateOfBirth = textOf r ''date_of_birth'', ssn = textOf r ''ssn''\<rparr>,
               driverInfo =
                 \<lparr>driverLicenseNumber = textOf r ''driver_license_number'',
                  licenseState = textOf r ''state'',
                  licenseClass = textOf r ''license_class''\<rparr>,
               vehicleInfo =
                 (if truthy (textOf r ''vin'') then
                    Some \<lparr>vin = textOf r ''vin'', vehicleMake = textOf r ''make'',
                          vehicleModel = textOf r ''model'', vehicleYear = textOf r ''year'',
                          licensePlate = textOf r ''license_plate''\<rparr>
                  else None),
               businessInfo =
                 (if truthy (textOf r ''business_name'') then
                    Some \<lparr>businessName = textOf r ''business_name'',
                          businessType = textOf r ''business_type'',
                          ein = textOf r ''ein'', address = textOf r ''business_address''\<rparr>
                  else None),
               insuranceInfo =
                 (if truthy (textOf r ''insurance_policy_number'') then
                    Some \<lparr>policyNumber = textOf r ''insurance_policy_number'',
                          insuranceCompany = textOf r ''insurance_company'',
                          effectiveDate = textOf r ''insurance_effective_date'',
                          expirationDate = textOf r ''insurance_expiration_date''\<rparr>
                  else None),
               employmentInfo = None,
               subscriptionPlan =
                 (if truthy (textOf r ''subscription_plan'')
                  then the (textOf r ''subscription_plan'') else ''BASIC''),
               stripeCustomerId = textOf r ''stripe_customer_id''\<rparr>)"

text \<open>
  \<open>updateOnboardingStepStatus\<close>: the two columns are named after the step,
  \<open>stepName_status\<close> and \<open>stepName_result\<close>, interpolated into the statement without
  quotes; every record of the driver is updated.
\<close>

definition updateOnboardingStepStatus ::
  "env \<Rightarrow> world \<Rightarrow> string \<Rightarrow> string \<Rightarrow> string \<Rightarrow> stepResult option \<Rightarrow> (string + bool) \<times> world"
where
  "updateOnboardingStepStatus e w driver stepName st res =
     (let stepColumn = stepName @ ''_status'';
          resultColumn = stepName @ ''_result''
      in case sql_update (onboarding_records w)
                [(stepColumn, SqlText st),
                 (resultColumn,
                   (case res of None \<Rightarrow> SqlNull | Some x \<Rightarrow> SqlJson (StepJson x))),
                 (''updated_at'', SqlText (now e))]
                ''driver_id'' (SqlText driver) of
           Inl m \<Rightarrow> (Inl m, w)
         | Inr records \<Rightarrow> (Inr True, w\<lparr>onboarding_records := records\<rparr>))"

text \<open>
  The \<open>switch\<close> of \<open>retryOnboardingStep\<close>: the adapter call of a known step name,
  \<open>None\<close> for the \<open>default\<close> case.
\<close>

definition dispatchStep :: "env \<Rightarrow> driverData \<Rightarrow> string \<Rightarrow> (string + stepResult) option" where
  "dispatchStep e d stepName =
     (if stepName = ''backgroundCheck'' then
        Some (map_sum id BackgroundCheckResult (performComprehensiveBackgroundCheck e d))
      else if stepName = ''insuranceVerification'' then
        Some (map_sum id InsuranceResult (performComprehensiveInsuranceVerification e d))
      else if stepName = ''payment'' then
        Some (map_sum id PaymentResult (processOnboardingPayment e d))
      else if stepName = ''documentStorage'' then
        Some (map_sum id DocumentResult (storeDriverDocuments e d))
      else None)"

record retryResult =
  rr_stepName :: string
  rr_status :: string
  rr_result :: stepResult
  retryAt :: string

text \<open>
  \<open>retryOnboardingStep\<close>: the status query, the driver lookup, the \<open>switch\<close>, the write
  of the step's status. \<open>Inl\<close> is the error the function throws (its \<open>catch\<close> logs and
  rethrows whatever any of them throws), \<open>Inr\<close> the object it returns.
\<close>

definition retryOnboardingStep ::
  "env \<Rightarrow> world \<Rightarrow> string \<Rightarrow> string \<Rightarrow> (string + retryResult) \<times> world" where
  "retryOnboardingStep e w driver stepName =
     (case getOnboardingStatus w driver of
        Inl m \<Rightarrow> (Inl m, w)
      | Inr currentStatus \<Rightarrow>
          (case getDriverData w driver of
             Inl m \<Rightarrow> (Inl m, w)
           | Inr d \<Rightarrow>
               (case dispatchStep e d stepName of
                  None \<Rightarrow> (Inl (''Unknown step: '' @ stepName), w)
                | Some body \<Rightarrow>
                    (let w1 = invoke stepName w in
                     case body of
                       Inl m \<Rightarrow> (Inl m, w1)
                     | Inr stepResult \<Rightarrow>
                         (case updateOnboardingStepStatus e w1 driver stepName ''completed''
                                 (Some stepResult) of
                            (Inl m, w2) \<Rightarrow> (Inl m, w2)
                          | (Inr u, w2) \<Rightarrow>
                              (Inr \<lparr>rr_stepName = stepName, rr_status = ''retried'',
                                    rr_result = stepResult, retryAt = now e\<rparr>, w2))))))"

section \<open>Notions used in the properties\<close>

text \<open>
  The guards of the conditional insurance steps, as conditions on the subject:
  \<open>insuranceInfo?.policyNumber\<close>, \<open>vehicleInfo?.vin\<close>, \<open>businessInfo?.businessName\<close>.
\<close>

definition hasPolicyNumber :: "driverData \<Rightarrow> bool" where
  "hasPolicyNumber d = (case insuranceInfo d of None \<Rightarrow> False | Some i \<Rightarrow> truthy (policyNumber i))"

definition hasVin :: "driverData \<Rightarrow> bool" where
  "hasVin d = (case vehicleInfo d of None \<Rightarrow> False | Some v \<Rightarrow> truthy (vin v))"

definition hasBusinessName :: "driverData \<Rightarrow> bool" where
  "hasBusinessName d = (case businessInfo d of None \<Rightarrow> False | Some b \<Rightarrow> truthy (businessName b))"

text \<open>
  The outcome that reports what an adapter did: completed with the value it returned,
  failed with the message of the error it threw.
\<close>

definition reported :: "string + 'r \<Rightarrow> 'r stepOutcome" where
  "reported body =
     (case body of
        Inl m \<Rightarrow> \<lparr>status = ''failed'', result = None, error = Some m\<rparr>
      | Inr x \<Rightarrow> \<lparr>status = ''completed'', result = Some x, error = None\<rparr>)"

section \<open>A sample driver, environment and store\<close>

text \<open>
  A driver with an insurance policy number and a VIN and no business. In the sample
  environment Firebase is not initialised, the payment goes through, the criminal check
  finds a conviction, the driving record has four violations, and the policy is active
  with a liability of 30000. The store holds one earlier onboarding record of the driver.
\<close>

definition sampleRow :: row where
  "sampleRow =
     [''id'' \<mapsto> SqlText ''d1'', ''first_name'' \<mapsto> SqlText ''Ada'',
      ''vin'' \<mapsto> SqlText ''1HGCM82633A004352'',
      ''insurance_policy_number'' \<mapsto> SqlText ''P-100'',
      ''insurance_company'' \<mapsto> SqlText ''geico'']"

definition sampleDriver :: driverData where
  "sampleDriver =
     \<lparr>d_id = Some ''d1'',
      personalInfo = \<lparr>firstName = Some ''Ada'', lastName = None, dateOfBirth = None, ssn = None\<rparr>,
      driverInfo = \<lparr>driverLicenseNumber = None, licenseState = None, licenseClass = None\<rparr>,
      vehicleInfo =
        Some \<lparr>vin = Some ''1HGCM82633A004352'', vehicleMake = None, vehicleModel = None,
              vehicleYear = None, licensePlate = None\<rparr>,
      businessInfo = None,
      insuranceInfo =
        Some \<lparr>policyNumber = Some ''P-100'', insuranceCompany = Some ''geico'',
              effectiveDate = None, expirationDate = None\<rparr>,
      employmentInfo = None,
      subscriptionPlan = ''BASIC'',
      stripeCustomerId = None\<rparr>"

definition sampleEnv :: env where
  "sampleEnv =
     \<lparr>now = ''2025-01-01T00:00:00.000Z'', enableCreditCheck = False,
      firebaseInitialized = False,
      criminalRequest = (\<lambda>p. Inr (CriminalResult 1 True False False)),
      drivingRequest = (\<lambda>d. Inr (DrivingResult 4 0 False False 0)),
      employmentRequest = (\<lambda>emp. Inl ''employmentInfo is undefined''),
      creditRequest = (\<lambda>p. Inl ''Credit check API not configured''),
      policyRequest =
        (\<lambda>i p. Inr \<lparr>verificationId = Some ''v1'', policyStatus = Some ''active'',
                    liability = JNumber 30000\<rparr>),
      driverSearchRequest = (\<lambda>p d v. Inl ''Insurance verification API not configured''),
      vehicleRequest =
        (\<lambda>v. Inr \<lparr>verificationId = Some ''v2'', policyStatus = None,
                  liability = JUndefined\<rparr>),
      commercialRequest =
        (\<lambda>b p v. Inl ''Commercial insurance verification API not configured''),
      paymentRequest =
        (\<lambda>d. Inr \<lparr>customerId = ''cus_1'', paymentIntentId = ''pi_1'', plan = ''BASIC''\<rparr>),
      uploadRequest = (\<lambda>d. Inr \<lparr>totalDocuments = 0, storageBucket = None\<rparr>)\<rparr>"

definition sampleRecord :: row where
  "sampleRecord =
     [''id'' \<mapsto> SqlInt 1, ''driver_id'' \<mapsto> SqlText ''d1'',
      ''overall_status'' \<mapsto> SqlText ''pending'',
      ''payment_status'' \<mapsto> SqlText ''failed'',
      ''document_status'' \<mapsto> SqlText ''failed'',
      ''started_at'' \<mapsto> SqlText ''2024-12-31T00:00:00.000Z'',
      ''completed_at'' \<mapsto> SqlNull]"

definition sampleWorld :: world where
  "sampleWorld =
     \<lparr>driver_query = (\<lambda>i. if i = ''d1'' then Inr [sampleRow] else Inr []),
      driver_profiles =
        \<lparr>columns = [''user_id'', ''onboarding_status'', ''onboarding_completed_at'',
                    ''updated_at''],
         rows = [[''user_id'' \<mapsto> SqlText ''d1'']]\<rparr>,
      onboarding_records =
        \<lparr>columns = [''id'', ''driver_id'', ''overall_status'', ''background_check_status'',
                    ''insurance_status'', ''payment_status'', ''document_status'',
                    ''database_status'', ''started_at'', ''completed_at'', ''summary_data'',
                    ''recommendations'', ''payment_result'', ''created_at'', ''updated_at''],
         rows = [sampleRecord]\<rparr>,
      invoked = []\<rparr>"

section \<open>Basic facts about the fan-out and the runs\<close>

lemma assign_not_Nil: "assign acc k v \<noteq> []"
  by (cases acc) (auto split: if_splits)

lemma processSettled_acc_not_Nil:
  "acc \<noteq> [] \<Longrightarrow> processSettled types i ps acc \<noteq> []"
proof (induction ps arbitrary: i acc)
  case Nil
  then show ?case by simp
next
  case (Cons p ps)
  show ?case
  proof (cases p)
    case (Fulfilled v)
    then show ?thesis by (simp add: Cons.IH assign_not_Nil)
  next
    case (Rejected reason)
    then show ?thesis by (simp add: Cons.IH assign_not_Nil)
  qed
qed

lemma processSettled_not_Nil:
  "ps \<noteq> [] \<Longrightarrow> processSettled types i ps acc \<noteq> []"
proof (cases ps)
  case Nil
  assume "ps \<noteq> []"
  with Nil show ?thesis by simp
next
  case (Cons p rest)
  show ?thesis
  proof (cases p)
    case (Fulfilled v)
    with Cons show ?thesis by (simp add: processSettled_acc_not_Nil assign_not_Nil)
  next
    case (Rejected reason)
    with Cons show ?thesis by (simp add: processSettled_acc_not_Nil assign_not_Nil)
  qed
qed

lemma checkPromises_not_Nil: "checkPromises e d \<noteq> []"
  by (simp add: checkPromises_def)

lemma verificationPromises_not_Nil: "verificationPromises e d \<noteq> []"
  by (simp add: verificationPromises_def)

lemma folded_names:
  "foldIdentifier ''id'' = ''id''"
  "foldIdentifier ''driver_id'' = ''driver_id''"
  "foldIdentifier ''user_id'' = ''user_id''"
  "foldIdentifier ''created_at'' = ''created_at''"
  "foldIdentifier ''updated_at'' = ''updated_at''"
  "foldIdentifier ''started_at'' = ''started_at''"
  "foldIdentifier ''completed_at'' = ''completed_at''"
  "foldIdentifier ''overall_status'' = ''overall_status''"
  "foldIdentifier ''background_check_status'' = ''background_check_status''"
  "foldIdentifier ''insurance_status'' = ''insurance_status''"
  "foldIdentifier ''payment_status'' = ''payment_status''"
  "foldIdentifier ''document_status'' = ''document_status''"
  "foldIdentifier ''database_status'' = ''database_status''"
  "foldIdentifier ''summary_data'' = ''summary_data''"
  "foldIdentifier ''recommendations'' = ''recommendations''"
  "foldIdentifier ''onboarding_status'' = ''onboarding_status''"
  "foldIdentifier ''onboarding_completed_at'' = ''onboarding_completed_at''"
  by code_simp+

lemma folded_step_columns:
  "foldIdentifier (''backgroundCheck'' @ ''_status'') = ''backgroundcheck_status''"
  "foldIdentifier (''backgroundCheck'' @ ''_result'') = ''backgroundcheck_result''"
  "foldIdentifier (''insuranceVerification'' @ ''_status'') = ''insuranceverification_status''"
  "foldIdentifier (''insuranceVerification'' @ ''_result'') = ''insuranceverification_result''"
  "foldIdentifier (''payment'' @ ''_status'') = ''payment_status''"
  "foldIdentifier (''payment'' @ ''_result'') = ''payment_result''"
  "foldIdentifier (''documentStorage'' @ ''_status'') = ''documentstorage_status''"
  "foldIdentifier (''documentStorage'' @ ''_result'') = ''documentstorage_result''"
  by code_simp+

lemma status_partition:
  "ss \<noteq> [] \<Longrightarrow>
     (let C = length (filter (\<lambda>out. status out = ''completed'') (map snd ss));
          T = length ss
      in 0 < T \<and> C \<le> T
         \<and> (C = T \<longrightarrow> determineOverallStatus ss = ''completed'')
         \<and> (0 < C \<and> C < T \<longrightarrow> determineOverallStatus ss = ''partial'')
         \<and> (C = 0 \<longrightarrow> determineOverallStatus ss = ''failed''))"
  by (auto simp: determineOverallStatus_def completedCount_def Let_def)

lemma onboarding_steps_keys:
  "map fst (steps (fst (performCompleteOnboarding e w d)))
     = [''backgroundCheck'', ''insuranceVerification'', ''payment'', ''documentStorage'',
        ''databaseUpdate'']"
  by (simp add: performCompleteOnboarding_def Let_def split: prod.splits)

lemma onboarding_overallStatus:
  "overallStatus (fst (performCompleteOnboarding e w d))
     = determineOverallStatus (steps (fst (performCompleteOnboarding e w d)))"
  by (simp add: performCompleteOnboarding_def Let_def split: prod.splits)

lemma background_run:
  "performComprehensiveBackgroundCheck e d = Inr b \<Longrightarrow>
     checks b = processSettled checkTypes 0 (checkPromises e d) []
     \<and> bc_overallStatus b = determineOverallStatus (checks b)
     \<and> bc_summary b = generateSummary (checks b)"
  by (auto simp: performComprehensiveBackgroundCheck_def Let_def)

lemma insurance_run:
  "performComprehensiveInsuranceVerification e d = Inr v \<Longrightarrow>
     verifications v = processSettled verificationTypes 0 (verificationPromises e d) []
     \<and> iv_overallStatus v = determineOverallStatus (verifications v)
     \<and> iv_summary v = generateVerificationSummary (verifications v)"
  by (auto simp: performComprehensiveInsuranceVerification_def Let_def)

lemma background_is_Inr:
  "performComprehensiveBackgroundCheck e d
     = Inr (projr (performComprehensiveBackgroundCheck e d))"
  by (simp add: performComprehensiveBackgroundCheck_def Let_def)

lemma insurance_is_Inr:
  "performComprehensiveInsuranceVerification e d
     = Inr (projr (performComprehensiveInsuranceVerification e d))"
  by (simp add: performComprehensiveInsuranceVerification_def Let_def)

lemma rethrow_message:
  "prefix \<noteq> [] \<Longrightarrow> rethrow prefix body = Inl m \<Longrightarrow> m \<noteq> []"
  by (cases body) (auto simp: rethrow_def)

lemma wrapStep_Fulfilled: "\<exists>v. wrapStep ty body = Fulfilled v"
  by (cases body) (simp_all add: wrapStep_def async_def)

lemma processSettled_wrapStep:
  "(\<And>m. body = Inl m \<Longrightarrow> m \<noteq> []) \<Longrightarrow>
     processSettled types i (wrapStep ty body # rest) acc
       = processSettled types (Suc i) rest (assign acc ty (reported body))"
  by (cases body) (simp_all add: wrapStep_def async_def reported_def truthy_def)

lemma criminal_message: "performCriminalBackgroundCheck e p = Inl m \<Longrightarrow> m \<noteq> []"
  by (auto simp: performCriminalBackgroundCheck_def rethrow_def split: sum.splits)

lemma driving_message: "performDrivingRecordCheck e p = Inl m \<Longrightarrow> m \<noteq> []"
  by (auto simp: performDrivingRecordCheck_def rethrow_def split: sum.splits)

lemma employment_message: "performEmploymentVerification e p = Inl m \<Longrightarrow> m \<noteq> []"
  by (auto simp: performEmploymentVerification_def rethrow_def split: sum.splits)

lemma credit_message: "performCreditCheck e p = Inl m \<Longrightarrow> m \<noteq> []"
  by (auto simp: performCreditCheck_def rethrow_def split: sum.splits)

lemma policy_message: "verifyPolicyByNumber e i p = Inl m \<Longrightarrow> m \<noteq> []"
  by (auto simp: verifyPolicyByNumber_def rethrow_def split: sum.splits)

lemma driver_message: "verifyInsuranceByDriver e p d v = Inl m \<Longrightarrow> m \<noteq> []"
  by (auto simp: verifyInsuranceByDriver_def rethrow_def split: sum.splits)

lemma vehicle_message: "verifyVehicleInsurance e v = Inl m \<Longrightarrow> m \<noteq> []"
  by (auto simp: verifyVehicleInsurance_def rethrow_def split: sum.splits)

lemma commercial_message: "verifyCommercialInsurance e b p v = Inl m \<Longrightarrow> m \<noteq> []"
  by (auto simp: verifyCommercialInsurance_def rethrow_def split: sum.splits)

lemmas adapter_messages =
  criminal_message driving_message employment_message credit_message
  policy_message driver_message vehicle_message commercial_message

lemma recorded_checks:
  "processSettled checkTypes 0 (checkPromises e d) []
     = [(''criminal'', reported (performCriminalBackgroundCheck e (personalInfo d))),
        (''driving'', reported (performDrivingRecordCheck e (driverInfo d))),
        (''employment'', reported (performEmploymentVerification e (employmentInfo d)))]
       @ (if enableCreditCheck e
          then [(''credit'', reported (performCreditCheck e (personalInfo d)))]
          else [])"
  by (simp add: checkPromises_def processSettled_wrapStep adapter_messages)

lemma recorded_verifications:
  "processSettled verificationTypes 0 (verificationPromises e d) []
     = (if hasPolicyNumber d
        then [(''policy'',
               reported (verifyPolicyByNumber e (the (insuranceInfo d)) (personalInfo d)))]
        else [])
       @ [(''driver'',
           reported (verifyInsuranceByDriver e (personalInfo d) (driverInfo d) (vehicleInfo d)))]
       @ (if hasVin d
          then [(''vehicle'', reported (verifyVehicleInsurance e (the (vehicleInfo d))))]
          else [])
       @ (if hasBusinessName d
          then [(''commercial'',
                 reported (verifyCommercialInsurance e (the (businessInfo d)) (personalInfo d)
                             (vehicleInfo d)))]
          else [])"
  by (simp add: verificationPromises_def hasPolicyNumber_def hasVin_def hasBusinessName_def
        processSettled_wrapStep adapter_messages split: option.splits)

section \<open>Overall status\<close>

text \<open>
  Claim C1. For the step outcomes a workflow run records (complete onboarding,
  background check, insurance verification), let \<open>C\<close> be the number of recorded outcomes
  whose status is \<open>completed\<close> and \<open>T\<close> the number of recorded outcomes. Then \<open>T\<close> is
  positive and \<open>C \<le> T\<close>, so exactly one of \<open>C = T\<close>, \<open>0 < C < T\<close> and \<open>C = 0\<close> holds, and
  the overall status is \<open>completed\<close>, \<open>partial\<close> and \<open>failed\<close> respectively.
\<close>

theorem overall_status_three_way:
  assumes "performCompleteOnboarding e w d = (r, w')"
    and "performComprehensiveBackgroundCheck e d = Inr b"
    and "performComprehensiveInsuranceVerification e d = Inr v"
  shows "(let C = length (filter (\<lambda>out. status out = ''completed'') (map snd (steps r)));
              T = length (steps r)
          in 0 < T \<and> C \<le> T
             \<and> (C = T \<longrightarrow> overallStatus r = ''completed'')
             \<and> (0 < C \<and> C < T \<longrightarrow> overallStatus r = ''partial'')
             \<and> (C = 0 \<longrightarrow> overallStatus r = ''failed''))
       \<and> (let C = length (filter (\<lambda>out. status out = ''completed'') (map snd (checks b)));
               T = length (checks b)
           in 0 < T \<and> C \<le> T
              \<and> (C = T \<longrightarrow> bc_overallStatus b = ''completed'')
              \<and> (0 < C \<and> C < T \<longrightarrow> bc_overallStatus b = ''partial'')
              \<and> (C = 0 \<longrightarrow> bc_overallStatus b = ''failed''))
       \<and> (let C = length (filter (\<lambda>out. status out = ''completed'')
                             (map snd (verifications v)));
               T = length (verifications v)
           in 0 < T \<and> C \<le> T
              \<and> (C = T \<longrightarrow> iv_overallStatus v = ''completed'')
              \<and> (0 < C \<and> C < T \<longrightarrow> iv_overallStatus v = ''partial'')
              \<and> (C = 0 \<longrightarrow> iv_overallStatus v = ''failed''))"
proof -
  have r: "r = fst (performCompleteOnboarding e w d)" using assms(1) by simp
  have "map fst (steps r) \<noteq> []" unfolding r onboarding_steps_keys by simp
  then have ne: "steps r \<noteq> []" by auto
  have o: "overallStatus r = determineOverallStatus (steps r)"
    unfolding r by (rule onboarding_overallStatus)
  have top: "let C = length (filter (\<lambda>out. status out = ''completed'') (map snd (steps r)));
              T = length (steps r)
          in 0 < T \<and> C \<le> T
             \<and> (C = T \<longrightarrow> overallStatus r = ''completed'')
             \<and> (0 < C \<and> C < T \<longrightarrow> overallStatus r = ''partial'')
             \<and> (C = 0 \<longrightarrow> overallStatus r = ''failed'')"
    unfolding o by (rule status_partition [OF ne])
  have neb: "checks b \<noteq> []"
    using background_run [OF assms(2)] processSettled_not_Nil checkPromises_not_Nil by metis
  have ob: "bc_overallStatus b = determineOverallStatus (checks b)"
    using background_run [OF assms(2)] by simp
  have bg: "let C = length (filter (\<lambda>out. status out = ''completed'') (map snd (checks b)));
               T = length (checks b)
           in 0 < T \<and> C \<le> T
              \<and> (C = T \<longrightarrow> bc_overallStatus b = ''completed'')
              \<and> (0 < C \<and> C < T \<longrightarrow> bc_overallStatus b = ''partial'')
              \<and> (C = 0 \<longrightarrow> bc_overallStatus b = ''failed'')"
    unfolding ob by (rule status_partition [OF neb])
  have nev: "verifications v \<noteq> []"
    using insurance_run [OF assms(3)] processSettled_not_Nil verificationPromises_not_Nil
    by metis
  have ov: "iv_overallStatus v = determineOverallStatus (verifications v)"
    using insurance_run [OF assms(3)] by simp
  have ins: "let C = length (filter (\<lambda>out. status out = ''completed'')
                             (map snd (verifications v)));
               T = length (verifications v)
           in 0 < T \<and> C \<le> T
              \<and> (C = T \<longrightarrow> iv_overallStatus v = ''completed'')
              \<and> (0 < C \<and> C < T \<longrightarrow> iv_overallStatus v = ''partial'')
              \<and> (C = 0 \<longrightarrow> iv_overallStatus v = ''failed'')"
    unfolding ov by (rule status_partition [OF nev])
  from top bg ins show ?thesis by (intro conjI)
qed

text \<open>
  The sample run: four of the five steps complete (document storage fails), and the
  overall status is \<open>partial\<close>.
\<close>

theorem overall_status_three_way_witness:
  "performCompleteOnboarding sampleEnv sampleWorld sampleDriver
     = (fst (performCompleteOnboarding sampleEnv sampleWorld sampleDriver),
        snd (performCompleteOnboarding sampleEnv sampleWorld sampleDriver))
   \<and> performComprehensiveBackgroundCheck sampleEnv sampleDriver
     = Inr (projr (performComprehensiveBackgroundCheck sampleEnv sampleDriver))
   \<and> performComprehensiveInsuranceVerification sampleEnv sampleDriver
     = Inr (projr (performComprehensiveInsuranceVerification sampleEnv sampleDriver))
   \<and> length (filter (\<lambda>out. status out = ''completed'')
        (map snd (steps (fst (performCompleteOnboarding sampleEnv sampleWorld sampleDriver)))))
       = 4
   \<and> length (steps (fst (performCompleteOnboarding sampleEnv sampleWorld sampleDriver))) = 5
   \<and> overallStatus (fst (performCompleteOnboarding sampleEnv sampleWorld sampleDriver))
       = ''partial''"
proof -
  let ?r = "fst (performCompleteOnboarding sampleEnv sampleWorld sampleDriver)"
  have h1: "performCompleteOnboarding sampleEnv sampleWorld sampleDriver
              = (?r, snd (performCompleteOnboarding sampleEnv sampleWorld sampleDriver))"
    by simp
  note h2 = background_is_Inr [of sampleEnv sampleDriver]
  note h3 = insurance_is_Inr [of sampleEnv sampleDriver]
  have c: "length (filter (\<lambda>out. status out = ''completed'') (map snd (steps ?r))) = 4"
    by code_simp
  have t: "length (steps ?r) = 5"
    by code_simp
  note tw = overall_status_three_way [OF h1 h2 h3, unfolded Let_def, THEN conjunct1]
  have hyp: "0 < length (filter (\<lambda>out. status out = ''completed'') (map snd (steps ?r)))
             \<and> length (filter (\<lambda>out. status out = ''completed'') (map snd (steps ?r)))
                 < length (steps ?r)"
    unfolding c t by simp
  have "overallStatus ?r = ''partial''"
    by (rule tw [THEN conjunct2, THEN conjunct2, THEN conjunct2, THEN conjunct1, rule_format,
                 OF hyp])
  with h1 h2 h3 c t show ?thesis by (intro conjI)
qed

section \<open>Risk level of the background check\<close>

text \<open>
  Claim C2. The claim asks that a criminal history makes the risk level \<open>high\<close> and that
  more than three driving violations raise it to \<open>medium\<close> only when it is not \<open>high\<close>
  already. \<open>generateSummary\<close> visits the checks in the order they were recorded
  (criminal, driving, employment), and its driving and employment tests assign \<open>medium\<close>
  without looking at the level reached. For the sample driver the criminal check
  completes with a conviction, the driving check completes with four violations and the
  employment check fails: the summary has both flags, the risk level \<open>medium\<close> and the
  recommendations of the medium level.
\<close>

theorem criminal_history_downgraded_by_violations:
  "checks (projr (performComprehensiveBackgroundCheck sampleEnv sampleDriver))
     = [(''criminal'', \<lparr>status = ''completed'',
                        result = Some (CriminalResult 1 True False False), error = None\<rparr>),
        (''driving'', \<lparr>status = ''completed'',
                       result = Some (DrivingResult 4 0 False False 0), error = None\<rparr>),
        (''employment'', \<lparr>status = ''failed'', result = None,
                          error = Some ''Employment verification failed: employmentInfo is undefined''\<rparr>)]
   \<and> generateSummary
       [(''criminal'', \<lparr>status = ''completed'',
                        result = Some (CriminalResult 1 True False False), error = None\<rparr>),
        (''driving'', \<lparr>status = ''completed'',
                       result = Some (DrivingResult 4 0 False False 0), error = None\<rparr>),
        (''employment'', \<lparr>status = ''failed'', result = None,
                          error = Some ''Employment verification failed: employmentInfo is undefined''\<rparr>)]
     = \<lparr>totalChecks = 3, completedChecks = 2, failedChecks = 1, riskLevel = ''medium'',
        flags = [''Criminal history detected'', ''Multiple driving violations''],
        recommendations = [''Review specific flagged items'',
                           ''Consider additional verification'']\<rparr>
   \<and> riskLevel (bc_summary (projr (performComprehensiveBackgroundCheck sampleEnv sampleDriver)))
       = ''medium''"
  by code_simp

section \<open>Coverage status of the insurance verification\<close>

lemma scan_active:
  "hasActiveInsurance (fold scanVerification vs a)
     = (hasActiveInsurance a
        \<or> (\<exists>v. (''policy'', v) \<in> set vs \<and> status v = ''completed''
                 \<and> policyStatusOf (result v) = Some ''active''))"
  by (induction vs arbitrary: a) (auto simp: scanVerification_def Let_def)

lemma scan_expired:
  "hasExpiredInsurance (fold scanVerification vs a)
     = (hasExpiredInsurance a
        \<or> (\<exists>v. (''policy'', v) \<in> set vs \<and> status v = ''completed''
                 \<and> policyStatusOf (result v) = Some ''expired''))"
  by (induction vs arbitrary: a) (auto simp: scanVerification_def Let_def)

lemma scan_insufficient:
  "hasInsufficientCoverage (fold scanVerification vs a)
     = (hasInsufficientCoverage a
        \<or> (\<exists>v. (''policy'', v) \<in> set vs \<and> status v = ''completed''
                 \<and> liabilityUnderFloor (result v)))"
  by (induction vs arbitrary: a) (auto simp: scanVerification_def Let_def)

lemma scan_flags:
  "iv_flags (scanSummary (fold scanVerification vs a)) = iv_flags (scanSummary a)"
  by (induction vs arbitrary: a) (auto simp: scanVerification_def Let_def)

lemma summary_coverageStatus:
  "coverageStatus (generateVerificationSummary vs)
     = (let scan = fold scanVerification vs
              \<lparr>scanSummary =
                 \<lparr>totalVerifications = length (map fst vs),
                  completedVerifications = 0, failedVerifications = 0,
                  coverageStatus = ''unknown'', iv_flags = [], iv_recommendations = []\<rparr>,
               hasActiveInsurance = False, hasExpiredInsurance = False,
               hasInsufficientCoverage = False\<rparr>
        in if hasActiveInsurance scan \<and> \<not> hasExpiredInsurance scan
              \<and> \<not> hasInsufficientCoverage scan then ''adequate''
           else if hasActiveInsurance scan \<and> hasInsufficientCoverage scan then ''insufficient''
           else if hasExpiredInsurance scan then ''expired''
           else ''unknown'')"
  by (simp add: generateVerificationSummary_def Let_def)

lemma summary_flags:
  "iv_flags (generateVerificationSummary vs)
     = (let scan = fold scanVerification vs
              \<lparr>scanSummary =
                 \<lparr>totalVerifications = length (map fst vs),
                  completedVerifications = 0, failedVerifications = 0,
                  coverageStatus = ''unknown'', iv_flags = [], iv_recommendations = []\<rparr>,
               hasActiveInsurance = False, hasExpiredInsurance = False,
               hasInsufficientCoverage = False\<rparr>
        in if hasActiveInsurance scan \<and> \<not> hasExpiredInsurance scan
              \<and> \<not> hasInsufficientCoverage scan then []
           else if hasActiveInsurance scan \<and> hasInsufficientCoverage scan
           then [''Insufficient liability coverage'']
           else if hasExpiredInsurance scan then [''Insurance policy expired'']
           else [''Unable to verify insurance status''])"
  by (simp add: generateVerificationSummary_def Let_def scan_flags)

lemma under_floor_cases:
  "liabilityUnderFloor r
     \<longleftrightarrow> (\<exists>x. r = Some x
              \<and> (liability x = JNull \<or> (\<exists>b. liability x = JBool b)
                 \<or> (\<exists>q. liability x = JNumber q \<and> q < 50000)
                 \<or> (\<exists>q. liability x = JOther (Finite q) \<and> q < 50000)
                 \<or> liability x = JOther NegInfinity))"
proof (cases r)
  case None
  then show ?thesis by (simp add: liabilityUnderFloor_def)
next
  case (Some x)
  show ?thesis
  proof (cases "liability x")
    case JUndefined
    with Some show ?thesis by (simp add: liabilityUnderFloor_def)
  next
    case JNull
    with Some show ?thesis by (simp add: liabilityUnderFloor_def)
  next
    case (JBool b)
    with Some show ?thesis by (simp add: liabilityUnderFloor_def)
  next
    case (JNumber q)
    with Some show ?thesis by (simp add: liabilityUnderFloor_def)
  next
    case (JOther n)
    with Some show ?thesis by (cases n) (simp_all add: liabilityUnderFloor_def)
  qed
qed

lemma policy_status_cases:
  "policyStatusOf r = Some st \<longleftrightarrow> (\<exists>x. r = Some x \<and> policyStatus x = Some st)"
  by (cases r) (simp_all add: policyStatusOf_def)

text \<open>
  Claim C3. For verifications with one entry per type, as an object has, let a policy
  be found active, or expired, when the \<open>policy\<close> verification is completed and its
  result has \<open>policyDetails.status\<close> \<open>active\<close>, or \<open>expired\<close>; and let it be found under
  the floor when the \<open>policy\<close> verification is completed and its result's
  \<open>coverage.liability\<close> is a number below 50000, or a value that the comparison reads as
  one (\<open>null\<close> and the booleans, which read 0 or 1; a string or array whose number is
  below 50000 or minus infinity). The coverage status is \<open>adequate\<close> exactly when a policy
  is found active and none expired and none under the floor; \<open>insufficient\<close>, with the flag
  for it, exactly when it is active and under the floor; \<open>expired\<close> exactly when it is
  found expired; and \<open>unknown\<close> otherwise.
\<close>

theorem coverage_classification:
  assumes "distinct (map fst vs)"
  shows "let s = generateVerificationSummary vs;
             active = (\<exists>v x. map_of vs ''policy'' = Some v \<and> status v = ''completed''
                         \<and> result v = Some x \<and> policyStatus x = Some ''active'');
             expired = (\<exists>v x. map_of vs ''policy'' = Some v \<and> status v = ''completed''
                         \<and> result v = Some x \<and> policyStatus x = Some ''expired'');
             underFloor = (\<exists>v x. map_of vs ''policy'' = Some v \<and> status v = ''completed''
                         \<and> result v = Some x
                         \<and> (liability x = JNull \<or> (\<exists>b. liability x = JBool b)
                            \<or> (\<exists>q. liability x = JNumber q \<and> q < 50000)
                            \<or> (\<exists>q. liability x = JOther (Finite q) \<and> q < 50000)
                            \<or> liability x = JOther NegInfinity))
         in (coverageStatus s = ''adequate'' \<longleftrightarrow> active \<and> \<not> expired \<and> \<not> underFloor)
          \<and> (coverageStatus s = ''insufficient'' \<longleftrightarrow> active \<and> underFloor)
          \<and> (active \<and> underFloor \<longrightarrow> ''Insufficient liability coverage'' \<in> set (iv_flags s))
          \<and> (coverageStatus s = ''expired'' \<longleftrightarrow> expired)
          \<and> (coverageStatus s = ''unknown'' \<longleftrightarrow> \<not> active \<and> \<not> expired)"
proof -
  define A where "A = (\<exists>v. map_of vs ''policy'' = Some v \<and> status v = ''completed''
                           \<and> policyStatusOf (result v) = Some ''active'')"
  define E where "E = (\<exists>v. map_of vs ''policy'' = Some v \<and> status v = ''completed''
                           \<and> policyStatusOf (result v) = Some ''expired'')"
  define U where "U = (\<exists>v. map_of vs ''policy'' = Some v \<and> status v = ''completed''
                           \<and> liabilityUnderFloor (result v))"
  let ?init = "\<lparr>scanSummary =
                 \<lparr>totalVerifications = length (map fst vs),
                  completedVerifications = 0, failedVerifications = 0,
                  coverageStatus = ''unknown'', iv_flags = [], iv_recommendations = []\<rparr>,
               hasActiveInsurance = False, hasExpiredInsurance = False,
               hasInsufficientCoverage = False\<rparr>"
  have mem: "\<And>v. ((''policy'', v) \<in> set vs) = (map_of vs ''policy'' = Some v)"
    using assms by simp
  have sa: "hasActiveInsurance (fold scanVerification vs ?init) = A"
    unfolding scan_active mem A_def by simp
  have se: "hasExpiredInsurance (fold scanVerification vs ?init) = E"
    unfolding scan_expired mem E_def by simp
  have su: "hasInsufficientCoverage (fold scanVerification vs ?init) = U"
    unfolding scan_insufficient mem U_def by simp
  have cs: "coverageStatus (generateVerificationSummary vs)
              = (if A \<and> \<not> E \<and> \<not> U then ''adequate''
                 else if A \<and> U then ''insufficient''
                 else if E then ''expired'' else ''unknown'')"
    unfolding summary_coverageStatus Let_def sa se su ..
  have fs: "iv_flags (generateVerificationSummary vs)
              = (if A \<and> \<not> E \<and> \<not> U then []
                 else if A \<and> U then [''Insufficient liability coverage'']
                 else if E then [''Insurance policy expired'']
                 else [''Unable to verify insurance status''])"
    unfolding summary_flags Let_def sa se su ..
  have AE: "A \<Longrightarrow> E \<Longrightarrow> False"
  proof -
    assume "A" and "E"
    then obtain v v' where "map_of vs ''policy'' = Some v"
      "policyStatusOf (result v) = Some ''active''"
      "map_of vs ''policy'' = Some v'" "policyStatusOf (result v') = Some ''expired''"
      unfolding A_def E_def by (elim exE conjE)
    then show False by simp
  qed
  have A': "A = (\<exists>v x. map_of vs ''policy'' = Some v \<and> status v = ''completed''
                         \<and> result v = Some x \<and> policyStatus x = Some ''active'')"
    unfolding A_def policy_status_cases by simp
  have E': "E = (\<exists>v x. map_of vs ''policy'' = Some v \<and> status v = ''completed''
                         \<and> result v = Some x \<and> policyStatus x = Some ''expired'')"
    unfolding E_def policy_status_cases by simp
  have U': "U = (\<exists>v x. map_of vs ''policy'' = Some v \<and> status v = ''completed''
                         \<and> result v = Some x
                         \<and> (liability x = JNull \<or> (\<exists>b. liability x = JBool b)
                            \<or> (\<exists>q. liability x = JNumber q \<and> q < 50000)
                            \<or> (\<exists>q. liability x = JOther (Finite q) \<and> q < 50000)
                            \<or> liability x = JOther NegInfinity))"
    unfolding U_def under_floor_cases by simp
  have m1: "coverageStatus (generateVerificationSummary vs) = ''adequate''
              \<longleftrightarrow> A \<and> \<not> E \<and> \<not> U"
    unfolding cs by simp
  have m2: "coverageStatus (generateVerificationSummary vs) = ''insufficient'' \<longleftrightarrow> A \<and> U"
    unfolding cs by simp
  have m3: "A \<and> U \<longrightarrow> ''Insufficient liability coverage''
                            \<in> set (iv_flags (generateVerificationSummary vs))"
    unfolding fs by simp
  have m4: "coverageStatus (generateVerificationSummary vs) = ''expired'' \<longleftrightarrow> E"
    unfolding cs using AE by (cases A; cases E; cases U; simp)
  have m5: "coverageStatus (generateVerificationSummary vs) = ''unknown'' \<longleftrightarrow> \<not> A \<and> \<not> E"
    unfolding cs using AE by (cases A; cases E; cases U; simp)
  have main: "(coverageStatus (generateVerificationSummary vs) = ''adequate''
                 \<longleftrightarrow> A \<and> \<not> E \<and> \<not> U)
          \<and> (coverageStatus (generateVerificationSummary vs) = ''insufficient'' \<longleftrightarrow> A \<and> U)
          \<and> (A \<and> U \<longrightarrow> ''Insufficient liability coverage''
                            \<in> set (iv_flags (generateVerificationSummary vs)))
          \<and> (coverageStatus (generateVerificationSummary vs) = ''expired'' \<longleftrightarrow> E)
          \<and> (coverageStatus (generateVerificationSummary vs) = ''unknown'' \<longleftrightarrow> \<not> A \<and> \<not> E)"
    using m1 m2 m3 m4 m5 by (intro conjI)
  show ?thesis unfolding Let_def A' [symmetric] E' [symmetric] U' [symmetric] by (rule main)
qed

text \<open>
  The scenario of the claim, a completed policy verification, active, with a liability
  of 30000, is \<open>insufficient\<close>; with a liability of exactly 50000 it is \<open>adequate\<close>.
\<close>

theorem coverage_classification_witness:
  "distinct (map fst
     [(''policy'', \<lparr>status = ''completed'',
                    result = Some \<lparr>verificationId = None, policyStatus = Some ''active'',
                                   liability = JNumber 30000\<rparr>,
                    error = None\<rparr>)])
   \<and> coverageStatus (generateVerificationSummary
        [(''policy'', \<lparr>status = ''completed'',
                       result = Some \<lparr>verificationId = None, policyStatus = Some ''active'',
                                      liability = JNumber 30000\<rparr>,
                       error = None\<rparr>)]) = ''insufficient''
   \<and> ''Insufficient liability coverage'' \<in> set (iv_flags (generateVerificationSummary
        [(''policy'', \<lparr>status = ''completed'',
                       result = Some \<lparr>verificationId = None, policyStatus = Some ''active'',
                                      liability = JNumber 30000\<rparr>,
                       error = None\<rparr>)]))
   \<and> coverageStatus (generateVerificationSummary
        [(''policy'', \<lparr>status = ''completed'',
                       result = Some \<lparr>verificationId = None, policyStatus = Some ''active'',
                                      liability = JNumber 50000\<rparr>,
                       error = None\<rparr>)]) = ''adequate''"
proof -
  let ?vs = "[(''policy'', \<lparr>status = ''completed'',
                    result = Some \<lparr>verificationId = None, policyStatus = Some ''active'',
                                   liability = JNumber 30000\<rparr>,
                    error = None\<rparr>)]"
  let ?ws = "[(''policy'', \<lparr>status = ''completed'',
                    result = Some \<lparr>verificationId = None, policyStatus = Some ''active'',
                                   liability = JNumber 50000\<rparr>,
                    error = None\<rparr>)]"
  have d: "distinct (map fst ?vs)" by simp
  have d': "distinct (map fst ?ws)" by simp
  have a: "\<exists>v x. map_of ?vs ''policy'' = Some v \<and> status v = ''completed''
                \<and> result v = Some x \<and> policyStatus x = Some ''active''"
    by simp
  have u: "\<exists>v x. map_of ?vs ''policy'' = Some v \<and> status v = ''completed''
                \<and> result v = Some x
                \<and> (liability x = JNull \<or> (\<exists>b. liability x = JBool b)
                   \<or> (\<exists>q. liability x = JNumber q \<and> q < 50000)
                   \<or> (\<exists>q. liability x = JOther (Finite q) \<and> q < 50000)
                   \<or> liability x = JOther NegInfinity)"
    by simp
  have a': "\<exists>v x. map_of ?ws ''policy'' = Some v \<and> status v = ''completed''
                \<and> result v = Some x \<and> policyStatus x = Some ''active''"
    by simp
  have e': "\<not> (\<exists>v x. map_of ?ws ''policy'' = Some v \<and> status v = ''completed''
                \<and> result v = Some x \<and> policyStatus x = Some ''expired'')"
    by simp
  have u': "\<not> (\<exists>v x. map_of ?ws ''policy'' = Some v \<and> status v = ''completed''
                \<and> result v = Some x
                \<and> (liability x = JNull \<or> (\<exists>b. liability x = JBool b)
                   \<or> (\<exists>q. liability x = JNumber q \<and> q < 50000)
                   \<or> (\<exists>q. liability x = JOther (Finite q) \<and> q < 50000)
                   \<or> liability x = JOther NegInfinity))"
    by simp
  note t = coverage_classification [OF d, unfolded Let_def]
  note t' = coverage_classification [OF d', unfolded Let_def]
  have k1: "coverageStatus (generateVerificationSummary ?vs) = ''insufficient''"
    using t [THEN conjunct2, THEN conjunct1] a u by (rule iffD2 [OF _ conjI])
  have k2: "''Insufficient liability coverage''
              \<in> set (iv_flags (generateVerificationSummary ?vs))"
    by (rule t [THEN conjunct2, THEN conjunct2, THEN conjunct1, rule_format, OF conjI [OF a u]])
  have k3: "coverageStatus (generateVerificationSummary ?ws) = ''adequate''"
    by (rule iffD2 [OF t' [THEN conjunct1] conjI [OF a' conjI [OF e' u']]])
  from d k1 k2 k3 show ?thesis by (intro conjI)
qed

section \<open>Scheduling of the insurance steps\<close>

lemma fetched_guards:
  "getDriverData w i = Inr d \<Longrightarrow>
     (hasPolicyNumber d \<longleftrightarrow> insuranceInfo d \<noteq> None)
     \<and> (hasVin d \<longleftrightarrow> vehicleInfo d \<noteq> None)
     \<and> (hasBusinessName d \<longleftrightarrow> businessInfo d \<noteq> None)"
  by (auto simp: getDriverData_def hasPolicyNumber_def hasVin_def hasBusinessName_def
        split: sum.splits list.splits if_splits)

lemma sample_fetched: "getDriverData sampleWorld ''d1'' = Inr sampleDriver"
  by (simp add: getDriverData_def sampleWorld_def sampleRow_def sampleDriver_def textOf_def
        truthy_def)

text \<open>
  Claim C8. The steps an insurance verification records are a function of the subject
  alone: \<open>policy\<close> exactly when \<open>insuranceInfo?.policyNumber\<close> is set, \<open>driver\<close> always,
  \<open>vehicle\<close> exactly when \<open>vehicleInfo?.vin\<close> is set, \<open>commercial\<close> exactly when
  \<open>businessInfo?.businessName\<close> is set, in this order. For a subject fetched by
  \<open>getDriverData\<close>, as every caller passes, each of the three conditions holds exactly
  when the subject has the insurance, vehicle or business info at all.
\<close>

theorem insurance_scheduling:
  assumes "performComprehensiveInsuranceVerification e d = Inr v"
  shows "map fst (verifications v)
           = (if hasPolicyNumber d then [''policy''] else []) @ [''driver'']
             @ (if hasVin d then [''vehicle''] else [])
             @ (if hasBusinessName d then [''commercial''] else [])
         \<and> (getDriverData w i = Inr d \<longrightarrow>
              (hasPolicyNumber d \<longleftrightarrow> insuranceInfo d \<noteq> None)
              \<and> (hasVin d \<longleftrightarrow> vehicleInfo d \<noteq> None)
              \<and> (hasBusinessName d \<longleftrightarrow> businessInfo d \<noteq> None))"
proof -
  have "verifications v = processSettled verificationTypes 0 (verificationPromises e d) []"
    using insurance_run [OF assms] by simp
  then have "map fst (verifications v)
           = (if hasPolicyNumber d then [''policy''] else []) @ [''driver'']
             @ (if hasVin d then [''vehicle''] else [])
             @ (if hasBusinessName d then [''commercial''] else [])"
    by (simp add: recorded_verifications)
  then show ?thesis using fetched_guards by blast
qed

text \<open>
  The scenario of the claim: a policy number, a VIN and no business info schedule
  policy, driver and vehicle.
\<close>

theorem insurance_scheduling_witness:
  "performComprehensiveInsuranceVerification sampleEnv sampleDriver
     = Inr (projr (performComprehensiveInsuranceVerification sampleEnv sampleDriver))
   \<and> getDriverData sampleWorld ''d1'' = Inr sampleDriver
   \<and> insuranceInfo sampleDriver \<noteq> None \<and> vehicleInfo sampleDriver \<noteq> None
   \<and> businessInfo sampleDriver = None
   \<and> map fst (verifications
        (projr (performComprehensiveInsuranceVerification sampleEnv sampleDriver)))
       = [''policy'', ''driver'', ''vehicle'']"
proof -
  note h = insurance_is_Inr [of sampleEnv sampleDriver]
  have s: "insuranceInfo sampleDriver \<noteq> None \<and> vehicleInfo sampleDriver \<noteq> None
           \<and> businessInfo sampleDriver = None"
    by (simp add: sampleDriver_def)
  from insurance_scheduling [OF h, of sampleWorld "''d1''"] sample_fetched s
  have "map fst (verifications
          (projr (performComprehensiveInsuranceVerification sampleEnv sampleDriver)))
        = [''policy'', ''driver'', ''vehicle'']"
    by simp
  with h sample_fetched s show ?thesis by blast
qed

section \<open>The rejected branch of the fan-outs\<close>

text \<open>
  Claim C10. Every promise the two fan-outs hand to \<open>Promise.allSettled\<close> is fulfilled,
  whatever the adapter does, so the branch for a rejected promise is never taken; each
  adapter's outcome is recorded under the adapter's own type, completed with its value
  or failed with its message. The rejected branch names the outcome by position: for a
  subject without insurance info the first promise is the driver search, and a rejection
  in the first position would be recorded under \<open>policy\<close>.
\<close>

theorem fanout_never_rejected:
  "(\<forall>p \<in> set (checkPromises e d). \<exists>t. p = Fulfilled t)
   \<and> (\<forall>p \<in> set (verificationPromises e d). \<exists>t. p = Fulfilled t)
   \<and> (\<forall>b. performComprehensiveBackgroundCheck e d = Inr b \<longrightarrow>
        checks b
          = [(''criminal'', reported (performCriminalBackgroundCheck e (personalInfo d))),
             (''driving'', reported (performDrivingRecordCheck e (driverInfo d))),
             (''employment'', reported (performEmploymentVerification e (employmentInfo d)))]
            @ (if enableCreditCheck e
               then [(''credit'', reported (performCreditCheck e (personalInfo d)))]
               else []))
   \<and> (\<forall>v. performComprehensiveInsuranceVerification e d = Inr v \<longrightarrow>
        verifications v
          = (if hasPolicyNumber d
             then [(''policy'',
                    reported (verifyPolicyByNumber e (the (insuranceInfo d)) (personalInfo d)))]
             else [])
            @ [(''driver'',
                reported (verifyInsuranceByDriver e (personalInfo d) (driverInfo d)
                            (vehicleInfo d)))]
            @ (if hasVin d
               then [(''vehicle'', reported (verifyVehicleInsurance e (the (vehicleInfo d))))]
               else [])
            @ (if hasBusinessName d
               then [(''commercial'',
                      reported (verifyCommercialInsurance e (the (businessInfo d))
                                  (personalInfo d) (vehicleInfo d)))]
               else []))
   \<and> hd (verificationPromises e (d\<lparr>insuranceInfo := None\<rparr>))
       = wrapStep ''driver''
           (verifyInsuranceByDriver e (personalInfo d) (driverInfo d) (vehicleInfo d))
   \<and> processSettled verificationTypes 0
         [Rejected reason :: verificationResult tagged settled] []
       = [(''policy'', \<lparr>status = ''failed'', result = None,
                        error = Some (reasonMessage reason)\<rparr>)]"
proof -
  have a: "\<forall>p \<in> set (checkPromises e d). \<exists>t. p = Fulfilled t"
    by (auto simp: checkPromises_def wrapStep_Fulfilled)
  have b: "\<forall>p \<in> set (verificationPromises e d). \<exists>t. p = Fulfilled t"
    by (auto simp: verificationPromises_def wrapStep_Fulfilled split: option.splits if_splits)
  have c: "\<forall>b. performComprehensiveBackgroundCheck e d = Inr b \<longrightarrow>
        checks b
          = [(''criminal'', reported (performCriminalBackgroundCheck e (personalInfo d))),
             (''driving'', reported (performDrivingRecordCheck e (driverInfo d))),
             (''employment'', reported (performEmploymentVerification e (employmentInfo d)))]
            @ (if enableCreditCheck e
               then [(''credit'', reported (performCreditCheck e (personalInfo d)))]
               else [])"
    using background_run [of e d] recorded_checks [of e d] by metis
  have d: "\<forall>v. performComprehensiveInsuranceVerification e d = Inr v \<longrightarrow>
        verifications v
          = (if hasPolicyNumber d
             then [(''policy'',
                    reported (verifyPolicyByNumber e (the (insuranceInfo d)) (personalInfo d)))]
             else [])
            @ [(''driver'',
                reported (verifyInsuranceByDriver e (personalInfo d) (driverInfo d)
                            (vehicleInfo d)))]
            @ (if hasVin d
               then [(''vehicle'', reported (verifyVehicleInsurance e (the (vehicleInfo d))))]
               else [])
            @ (if hasBusinessName d
               then [(''commercial'',
                      reported (verifyCommercialInsurance e (the (businessInfo d))
                                  (personalInfo d) (vehicleInfo d)))]
               else [])"
    using insurance_run [of e d] recorded_verifications [of e d] by metis
  have f: "hd (verificationPromises e (d\<lparr>insuranceInfo := None\<rparr>))
       = wrapStep ''driver''
           (verifyInsuranceByDriver e (personalInfo d) (driverInfo d) (vehicleInfo d))"
    by (simp add: verificationPromises_def)
  have g: "processSettled verificationTypes 0
         [Rejected reason :: verificationResult tagged settled] []
       = [(''policy'', \<lparr>status = ''failed'', result = None,
                        error = Some (reasonMessage reason)\<rparr>)]"
    by (simp add: verificationTypes_def typeAt_def)
  from a b c d f g show ?thesis by blast
qed

theorem fanout_never_rejected_witness:
  "hd (checkPromises sampleEnv sampleDriver) \<in> set (checkPromises sampleEnv sampleDriver)
   \<and> (\<exists>t. hd (checkPromises sampleEnv sampleDriver) = Fulfilled t)
   \<and> hd (verificationPromises sampleEnv sampleDriver)
       \<in> set (verificationPromises sampleEnv sampleDriver)
   \<and> (\<exists>t. hd (verificationPromises sampleEnv sampleDriver) = Fulfilled t)
   \<and> performComprehensiveBackgroundCheck sampleEnv sampleDriver
       = Inr (projr (performComprehensiveBackgroundCheck sampleEnv sampleDriver))
   \<and> map fst (checks (projr (performComprehensiveBackgroundCheck sampleEnv sampleDriver)))
       = [''criminal'', ''driving'', ''employment'']
   \<and> performComprehensiveInsuranceVerification sampleEnv sampleDriver
       = Inr (projr (performComprehensiveInsuranceVerification sampleEnv sampleDriver))
   \<and> map fst (verifications
        (projr (performComprehensiveInsuranceVerification sampleEnv sampleDriver)))
       = [''policy'', ''driver'', ''vehicle'']"
proof -
  have m1: "hd (checkPromises sampleEnv sampleDriver) \<in> set (checkPromises sampleEnv sampleDriver)"
    by (rule hd_in_set) (rule checkPromises_not_Nil)
  have m2: "hd (verificationPromises sampleEnv sampleDriver)
              \<in> set (verificationPromises sampleEnv sampleDriver)"
    by (rule hd_in_set) (rule verificationPromises_not_Nil)
  note h2 = background_is_Inr [of sampleEnv sampleDriver]
  note h3 = insurance_is_Inr [of sampleEnv sampleDriver]
  have s: "\<not> enableCreditCheck sampleEnv \<and> hasPolicyNumber sampleDriver \<and> hasVin sampleDriver
           \<and> \<not> hasBusinessName sampleDriver"
    by (simp add: sampleEnv_def sampleDriver_def hasPolicyNumber_def hasVin_def
          hasBusinessName_def truthy_def)
  note t = fanout_never_rejected [of sampleEnv sampleDriver None]
  from t m1 have e1: "\<exists>t. hd (checkPromises sampleEnv sampleDriver) = Fulfilled t" by blast
  from t m2 have e2: "\<exists>t. hd (verificationPromises sampleEnv sampleDriver) = Fulfilled t"
    by blast
  from t h2 s
  have k1: "map fst (checks (projr (performComprehensiveBackgroundCheck sampleEnv sampleDriver)))
       = [''criminal'', ''driving'', ''employment'']"
    by simp
  from t h3 s
  have k2: "map fst (verifications
        (projr (performComprehensiveInsuranceVerification sampleEnv sampleDriver)))
       = [''policy'', ''driver'', ''vehicle'']"
    by simp
  from m1 e1 m2 e2 h2 k1 h3 k2 show ?thesis by blast
qed

section \<open>Retrying a step\<close>

lemma dispatchStep_None:
  "stepName \<notin> {''backgroundCheck'', ''insuranceVerification'', ''payment'', ''documentStorage''}
   \<Longrightarrow> dispatchStep e d stepName = None"
  by (simp add: dispatchStep_def)

lemma sample_storage_fails:
  "dispatchStep sampleEnv sampleDriver ''documentStorage'' = Some (Inl ''Firebase not initialized'')"
  by (simp add: dispatchStep_def storeDriverDocuments_def sampleEnv_def)

lemma status_query_is_Inr:
  "missingColumn (onboarding_records w) [''driver_id'', ''created_at''] = None \<Longrightarrow>
     getOnboardingStatus w driver = Inr (projr (getOnboardingStatus w driver))"
  by (simp add: getOnboardingStatus_def split: list.splits)

lemma sample_status_columns:
  "missingColumn (onboarding_records sampleWorld) [''driver_id'', ''created_at''] = None"
  by code_simp

lemmas sample_status_query = status_query_is_Inr [OF sample_status_columns, of "''d1''"]

text \<open>
  Claim C6. A retry with a step name outside \<open>backgroundCheck\<close>,
  \<open>insuranceVerification\<close>, \<open>payment\<close>, \<open>documentStorage\<close> throws and leaves the world as
  it was: no adapter is invoked and no table is written. When the status query answers
  and \<open>getDriverData\<close> finds the driver, the error is \<open>Unknown step:\<close> followed by the
  name. (When either of the two fails, its own error is thrown first.)
\<close>

theorem unknown_step_rejected:
  assumes "stepName \<notin> {''backgroundCheck'', ''insuranceVerification'', ''payment'',
                         ''documentStorage''}"
  shows "snd (retryOnboardingStep e w driver stepName) = w
       \<and> (\<exists>m. fst (retryOnboardingStep e w driver stepName) = Inl m)
       \<and> (\<forall>s d. getOnboardingStatus w driver = Inr s \<longrightarrow> getDriverData w driver = Inr d \<longrightarrow>
             fst (retryOnboardingStep e w driver stepName)
               = Inl (''Unknown step: '' @ stepName))"
proof (cases "getOnboardingStatus w driver")
  case (Inl m)
  then show ?thesis by (simp add: retryOnboardingStep_def)
next
  case (Inr s)
  note s = this
  show ?thesis
  proof (cases "getDriverData w driver")
    case (Inl m)
    with s show ?thesis by (simp add: retryOnboardingStep_def)
  next
    case (Inr d)
    with s show ?thesis
      by (simp add: retryOnboardingStep_def dispatchStep_None [OF assms])
  qed
qed

text \<open>
  \<open>databaseUpdate\<close> is a step of the workflow and not one that can be retried.
\<close>

theorem unknown_step_rejected_witness:
  "''databaseUpdate'' \<notin> {''backgroundCheck'', ''insuranceVerification'', ''payment'',
                           ''documentStorage''}
   \<and> getOnboardingStatus sampleWorld ''d1''
       = Inr (projr (getOnboardingStatus sampleWorld ''d1''))
   \<and> getDriverData sampleWorld ''d1'' = Inr sampleDriver
   \<and> fst (retryOnboardingStep sampleEnv sampleWorld ''d1'' ''databaseUpdate'')
       = Inl ''Unknown step: databaseUpdate''
   \<and> snd (retryOnboardingStep sampleEnv sampleWorld ''d1'' ''databaseUpdate'') = sampleWorld"
proof -
  have h: "''databaseUpdate'' \<notin> {''backgroundCheck'', ''insuranceVerification'', ''payment'',
                           ''documentStorage''}"
    by simp
  note t = unknown_step_rejected [OF h, of sampleEnv sampleWorld "''d1''"]
  have k1: "fst (retryOnboardingStep sampleEnv sampleWorld ''d1'' ''databaseUpdate'')
              = Inl (''Unknown step: '' @ ''databaseUpdate'')"
    by (rule t [THEN conjunct2, THEN conjunct2, rule_format,
                OF sample_status_query sample_fetched])
  then have k1': "fst (retryOnboardingStep sampleEnv sampleWorld ''d1'' ''databaseUpdate'')
              = Inl ''Unknown step: databaseUpdate''"
    by simp
  note k2 = t [THEN conjunct1]
  from h sample_status_query sample_fetched k1' k2 show ?thesis by (intro conjI)
qed

text \<open>
  Claim C4, as amended. When the adapter of a known step fails on a retry, with message
  \<open>m\<close> (the status query and the driver lookup having answered), \<open>retryOnboardingStep\<close>
  throws the same error: it returns nothing, the adapter is recorded as invoked, and the
  tables are as before.
\<close>

theorem retry_rethrows_adapter_failure:
  assumes "getOnboardingStatus w driver = Inr s"
    and "getDriverData w driver = Inr d"
    and "dispatchStep e d stepName = Some (Inl m)"
  shows "retryOnboardingStep e w driver stepName = (Inl m, invoke stepName w)
       \<and> onboarding_records (invoke stepName w) = onboarding_records w
       \<and> driver_profiles (invoke stepName w) = driver_profiles w"
  using assms by (simp add: retryOnboardingStep_def invoke_def)

theorem retry_rethrows_adapter_failure_witness:
  "getOnboardingStatus sampleWorld ''d1''
     = Inr (projr (getOnboardingStatus sampleWorld ''d1''))
   \<and> getDriverData sampleWorld ''d1'' = Inr sampleDriver
   \<and> dispatchStep sampleEnv sampleDriver ''documentStorage''
       = Some (Inl ''Firebase not initialized'')
   \<and> retryOnboardingStep sampleEnv sampleWorld ''d1'' ''documentStorage''
       = (Inl ''Firebase not initialized'', invoke ''documentStorage'' sampleWorld)"
proof -
  note t = retry_rethrows_adapter_failure
             [OF sample_status_query sample_fetched sample_storage_fails]
  from sample_status_query sample_fetched sample_storage_fails t [THEN conjunct1]
  show ?thesis by (intro conjI)
qed

text \<open>
  The claim as stated asks for a returned outcome with status \<open>failed\<close>. In the sample
  world the onboarding records have the columns the status query names and the driver is
  found; with Firebase not initialised, a retry of \<open>documentStorage\<close> throws
  \<open>Firebase not initialized\<close>.
\<close>

theorem retry_throws_counterexample:
  "missingColumn (onboarding_records sampleWorld) [''driver_id'', ''created_at''] = None
   \<and> getDriverData sampleWorld ''d1'' = Inr sampleDriver
   \<and> storeDriverDocuments sampleEnv sampleDriver = Inl ''Firebase not initialized''
   \<and> fst (retryOnboardingStep sampleEnv sampleWorld ''d1'' ''documentStorage'')
       = Inl ''Firebase not initialized''"
  by code_simp

lemma sql_update_frame:
  assumes "sql_update t sets wcol wval = Inr t'"
  shows "columns t' = columns t \<and> length (rows t') = length (rows t)
       \<and> (\<forall>i < length (rows t). \<forall>c. c \<notin> fst ` set (assignments sets) \<longrightarrow>
             (rows t' ! i) c = (rows t ! i) c)"
proof -
  have t': "t' = t\<lparr>rows :=
                 map (\<lambda>r. if wval \<noteq> SqlNull \<and> r (foldIdentifier wcol) = Some wval
                          then r ++ map_of (assignments sets) else r)
                   (rows t)\<rparr>"
    using assms by (auto simp: sql_update_def split: option.splits)
  have "\<And>r c. c \<notin> fst ` set (assignments sets) \<Longrightarrow> (r ++ map_of (assignments sets)) c = r c"
    by (simp add: map_add_dom_app_simps dom_map_of_conv_image_fst)
  then show ?thesis unfolding t' by simp
qed

lemma step_status_frame:
  assumes "updateOnboardingStepStatus e w driver X st res = (out, w')"
  shows "columns (onboarding_records w') = columns (onboarding_records w)
       \<and> length (rows (onboarding_records w')) = length (rows (onboarding_records w))
       \<and> (\<forall>i < length (rows (onboarding_records w)).
            \<forall>c. c \<notin> {foldIdentifier (X @ ''_status''), foldIdentifier (X @ ''_result''),
                       ''updated_at''} \<longrightarrow>
              (rows (onboarding_records w') ! i) c = (rows (onboarding_records w) ! i) c)
       \<and> driver_profiles w' = driver_profiles w \<and> driver_query w' = driver_query w
       \<and> invoked w' = invoked w"
proof (cases "sql_update (onboarding_records w)
                [(X @ ''_status'', SqlText st),
                 (X @ ''_result'', (case res of None \<Rightarrow> SqlNull | Some x \<Rightarrow> SqlJson (StepJson x))),
                 (''updated_at'', SqlText (now e))]
                ''driver_id'' (SqlText driver)")
  case (Inl m)
  then have "w' = w" using assms by (simp add: updateOnboardingStepStatus_def Let_def)
  then show ?thesis by simp
next
  case (Inr t')
  then have w': "w' = w\<lparr>onboarding_records := t'\<rparr>"
    using assms by (simp add: updateOnboardingStepStatus_def Let_def)
  have written: "fst ` set (assignments
                [(X @ ''_status'', SqlText st),
                 (X @ ''_result'', (case res of None \<Rightarrow> SqlNull | Some x \<Rightarrow> SqlJson (StepJson x))),
                 (''updated_at'', SqlText (now e))])
             = {foldIdentifier (X @ ''_status''), foldIdentifier (X @ ''_result''),
                ''updated_at''}"
    by (simp add: assignments_def folded_names)
  from sql_update_frame [OF Inr] show ?thesis unfolding w' written by simp
qed

lemma retry_world:
  assumes "retryOnboardingStep e w driver X = (res, w')"
  shows "w' = w \<or> w' = invoke X w
       \<or> (\<exists>st r out. updateOnboardingStepStatus e (invoke X w) driver X st r = (out, w'))"
proof (cases "getOnboardingStatus w driver")
  case (Inl m)
  then show ?thesis using assms by (simp add: retryOnboardingStep_def)
next
  case (Inr s)
  note s = this
  show ?thesis
  proof (cases "getDriverData w driver")
    case (Inl m)
    then show ?thesis using assms s by (simp add: retryOnboardingStep_def)
  next
    case (Inr d)
    note d = this
    show ?thesis
    proof (cases "dispatchStep e d X")
      case None
      then show ?thesis using assms s d by (simp add: retryOnboardingStep_def)
    next
      case (Some body)
      show ?thesis
      proof (cases body)
        case (Inl m)
        then show ?thesis using assms s d Some by (simp add: retryOnboardingStep_def)
      next
        case (Inr stepResult)
        obtain out w2 where u: "updateOnboardingStepStatus e (invoke X w) driver X ''completed''
                              (Some stepResult) = (out, w2)"
          by (cases "updateOnboardingStepStatus e (invoke X w) driver X ''completed''
                              (Some stepResult)") auto
        have "w' = w2" using assms s d Some Inr u
          by (cases out) (simp_all add: retryOnboardingStep_def)
        then show ?thesis using u by blast
      qed
    qed
  qed
qed

lemma frame_columns:
  assumes X: "X \<in> {''backgroundCheck'', ''insuranceVerification'', ''payment'', ''documentStorage''}"
    and c: "c \<in> {''started_at'', ''completed_at'', ''driver_id'', ''overall_status'',
                         ''database_status'', ''summary_data'', ''recommendations''}
                       \<union> ({''background_check_status'', ''insurance_status'',
                            ''payment_status'', ''document_status''} - {X @ ''_status''})"
  shows "c \<notin> {foldIdentifier (X @ ''_status''), foldIdentifier (X @ ''_result''),
               ''updated_at''}"
proof -
  from X consider (a) "X = ''backgroundCheck''" | (b) "X = ''insuranceVerification''"
    | (c) "X = ''payment''" | (d) "X = ''documentStorage''"
    by blast
  then show ?thesis
  proof cases
    case a
    from c show ?thesis unfolding a folded_step_columns
      by (elim UnE DiffE insertE emptyE; simp)
  next
    case b
    from c show ?thesis unfolding b folded_step_columns
      by (elim UnE DiffE insertE emptyE; simp)
  next
    case c
    from assms(2) show ?thesis unfolding c folded_step_columns
      by (elim UnE DiffE insertE emptyE; simp)
  next
    case d
    from c show ?thesis unfolding d folded_step_columns
      by (elim UnE DiffE insertE emptyE; simp)
  qed
qed

lemma retry_unknown_world:
  assumes "X \<notin> {''backgroundCheck'', ''insuranceVerification'', ''payment'', ''documentStorage''}"
  shows "snd (retryOnboardingStep e w driver X) = w"
proof (cases "getOnboardingStatus w driver")
  case (Inl m)
  then show ?thesis by (simp add: retryOnboardingStep_def)
next
  case (Inr s)
  note s = this
  show ?thesis
  proof (cases "getDriverData w driver")
    case (Inl m)
    with s show ?thesis by (simp add: retryOnboardingStep_def)
  next
    case (Inr d)
    with s show ?thesis
      by (simp add: retryOnboardingStep_def dispatchStep_None [OF assms])
  qed
qed

lemma written_columns:
  assumes "X \<in> {''backgroundCheck'', ''insuranceVerification'', ''payment'', ''documentStorage''}"
  shows "{foldIdentifier (X @ ''_status''), foldIdentifier (X @ ''_result''), ''updated_at''}
           = (if X = ''backgroundCheck''
              then {''backgroundcheck_status'', ''backgroundcheck_result'', ''updated_at''}
              else if X = ''insuranceVerification''
              then {''insuranceverification_status'', ''insuranceverification_result'',
                    ''updated_at''}
              else if X = ''payment''
              then {''payment_status'', ''payment_result'', ''updated_at''}
              else if X = ''documentStorage''
              then {''documentstorage_status'', ''documentstorage_result'', ''updated_at''}
              else {})"
proof -
  from assms consider (a) "X = ''backgroundCheck''" | (b) "X = ''insuranceVerification''"
    | (c) "X = ''payment''" | (d) "X = ''documentStorage''"
    by blast
  then show ?thesis
  proof cases
    case a
    show ?thesis unfolding a folded_step_columns by simp
  next
    case b
    show ?thesis unfolding b folded_step_columns by simp
  next
    case c
    show ?thesis unfolding c folded_step_columns by simp
  next
    case d
    show ?thesis unfolding d folded_step_columns by simp
  qed
qed

text \<open>
  Claim C7. Whatever a retry of step \<open>X\<close> returns or throws, the onboarding records keep
  their number and order, and every column of every record keeps its value, other than
  the two columns the update names after the step and the \<open>updated_at\<close> stamp. The names
  \<open>X_status\<close> and \<open>X_result\<close> are written into the statement without quotes, so the
  columns are the lower-case ones: \<open>backgroundcheck_status\<close> and
  \<open>backgroundcheck_result\<close> for \<open>backgroundCheck\<close>, and so on; for a name that cannot
  be retried nothing is written. The other tables are untouched. For the four steps that
  can be retried the columns kept include \<open>started_at\<close>, \<open>completed_at\<close>, the overall
  status, and the stored status of every other step.
\<close>

theorem retry_frame:
  assumes "retryOnboardingStep e w driver X = (res, w')"
  shows "columns (onboarding_records w') = columns (onboarding_records w)
       \<and> length (rows (onboarding_records w')) = length (rows (onboarding_records w))
       \<and> (\<forall>i < length (rows (onboarding_records w)).
            \<forall>c. c \<notin> (if X = ''backgroundCheck''
                       then {''backgroundcheck_status'', ''backgroundcheck_result'',
                             ''updated_at''}
                       else if X = ''insuranceVerification''
                       then {''insuranceverification_status'', ''insuranceverification_result'',
                             ''updated_at''}
                       else if X = ''payment''
                       then {''payment_status'', ''payment_result'', ''updated_at''}
                       else if X = ''documentStorage''
                       then {''documentstorage_status'', ''documentstorage_result'',
                             ''updated_at''}
                       else {}) \<longrightarrow>
              (rows (onboarding_records w') ! i) c = (rows (onboarding_records w) ! i) c)
       \<and> driver_profiles w' = driver_profiles w \<and> driver_query w' = driver_query w
       \<and> (X \<in> {''backgroundCheck'', ''insuranceVerification'', ''payment'', ''documentStorage''}
            \<longrightarrow> (\<forall>i < length (rows (onboarding_records w)).
                  \<forall>c \<in> {''started_at'', ''completed_at'', ''driver_id'', ''overall_status'',
                         ''database_status'', ''summary_data'', ''recommendations''}
                       \<union> ({''background_check_status'', ''insurance_status'',
                            ''payment_status'', ''document_status''} - {X @ ''_status''}).
                    (rows (onboarding_records w') ! i) c = (rows (onboarding_records w) ! i) c))"
proof -
  define written where
    "written = {foldIdentifier (X @ ''_status''), foldIdentifier (X @ ''_result''),
                ''updated_at''}"
  define named where
    "named = (if X = ''backgroundCheck''
              then {''backgroundcheck_status'', ''backgroundcheck_result'', ''updated_at''}
              else if X = ''insuranceVerification''
              then {''insuranceverification_status'', ''insuranceverification_result'',
                    ''updated_at''}
              else if X = ''payment''
              then {''payment_status'', ''payment_result'', ''updated_at''}
              else if X = ''documentStorage''
              then {''documentstorage_status'', ''documentstorage_result'', ''updated_at''}
              else {})"
  define kept where
    "kept = {''started_at'', ''completed_at'', ''driver_id'', ''overall_status'',
             ''database_status'', ''summary_data'', ''recommendations''}
            \<union> ({''background_check_status'', ''insurance_status'',
                 ''payment_status'', ''document_status''} - {X @ ''_status''})"
  define known where
    "known = {''backgroundCheck'', ''insuranceVerification'', ''payment'', ''documentStorage''}"
  have frame: "columns (onboarding_records w') = columns (onboarding_records w)
       \<and> length (rows (onboarding_records w')) = length (rows (onboarding_records w))
       \<and> (\<forall>i < length (rows (onboarding_records w)).
            \<forall>c. c \<notin> written \<longrightarrow>
              (rows (onboarding_records w') ! i) c = (rows (onboarding_records w) ! i) c)
       \<and> driver_profiles w' = driver_profiles w \<and> driver_query w' = driver_query w"
    using retry_world [OF assms]
  proof (elim disjE exE)
    assume "w' = w"
    then show ?thesis by simp
  next
    assume "w' = invoke X w"
    then show ?thesis by (simp add: invoke_def)
  next
    fix st r out
    assume "updateOnboardingStepStatus e (invoke X w) driver X st r = (out, w')"
    from step_status_frame [OF this] show ?thesis
      unfolding written_def by (simp add: invoke_def)
  qed
  have same: "X \<in> known \<Longrightarrow> written = named"
    unfolding known_def written_def named_def by (rule written_columns)
  have unknown: "X \<notin> known \<Longrightarrow> w' = w"
    unfolding known_def using retry_unknown_world [of X e w driver] assms by simp
  have third: "\<forall>i < length (rows (onboarding_records w)).
            \<forall>c. c \<notin> named \<longrightarrow>
              (rows (onboarding_records w') ! i) c = (rows (onboarding_records w) ! i) c"
  proof (cases "X \<in> known")
    case True
    from frame show ?thesis unfolding same [OF True] by blast
  next
    case False
    show ?thesis unfolding unknown [OF False] by simp
  qed
  have cols: "X \<in> known \<Longrightarrow> c \<in> kept \<Longrightarrow> c \<notin> written" for c
    unfolding known_def kept_def written_def by (rule frame_columns)
  from frame third cols
  have "columns (onboarding_records w') = columns (onboarding_records w)
       \<and> length (rows (onboarding_records w')) = length (rows (onboarding_records w))
       \<and> (\<forall>i < length (rows (onboarding_records w)).
            \<forall>c. c \<notin> named \<longrightarrow>
              (rows (onboarding_records w') ! i) c = (rows (onboarding_records w) ! i) c)
       \<and> driver_profiles w' = driver_profiles w \<and> driver_query w' = driver_query w
       \<and> (X \<in> known
            \<longrightarrow> (\<forall>i < length (rows (onboarding_records w)).
                  \<forall>c \<in> kept.
                    (rows (onboarding_records w') ! i) c = (rows (onboarding_records w) ! i) c))"
    by blast
  then show ?thesis unfolding named_def kept_def known_def .
qed

lemma sample_retry_payment:
  "length (rows (onboarding_records sampleWorld)) = 1
   \<and> (rows (onboarding_records (snd (retryOnboardingStep sampleEnv sampleWorld ''d1'' ''payment'')))
        ! 0) ''payment_status'' = Some (SqlText ''completed'')
   \<and> (rows (onboarding_records sampleWorld) ! 0) ''payment_status'' = Some (SqlText ''failed'')
   \<and> (rows (onboarding_records sampleWorld) ! 0) ''started_at''
       = Some (SqlText ''2024-12-31T00:00:00.000Z'')
   \<and> (rows (onboarding_records sampleWorld) ! 0) ''document_status'' = Some (SqlText ''failed'')"
  by code_simp

text \<open>
  A retry of \<open>payment\<close> for the sample driver, whose payment goes through: the record's
  \<open>payment_status\<close> becomes \<open>completed\<close>, its \<open>started_at\<close> and its \<open>document_status\<close>
  stay.
\<close>

theorem retry_frame_witness:
  "retryOnboardingStep sampleEnv sampleWorld ''d1'' ''payment''
     = (fst (retryOnboardingStep sampleEnv sampleWorld ''d1'' ''payment''),
        snd (retryOnboardingStep sampleEnv sampleWorld ''d1'' ''payment''))
   \<and> (0::nat) < length (rows (onboarding_records sampleWorld))
   \<and> ''payment'' \<in> {''backgroundCheck'', ''insuranceVerification'', ''payment'',
                      ''documentStorage''}
   \<and> ''started_at''
       \<notin> (if ''payment'' = ''backgroundCheck''
           then {''backgroundcheck_status'', ''backgroundcheck_result'', ''updated_at''}
           else if ''payment'' = ''insuranceVerification''
           then {''insuranceverification_status'', ''insuranceverification_result'',
                 ''updated_at''}
           else if ''payment'' = ''payment''
           then {''payment_status'', ''payment_result'', ''updated_at''}
           else if ''payment'' = ''documentStorage''
           then {''documentstorage_status'', ''documentstorage_result'', ''updated_at''}
           else {})
   \<and> ''document_status''
       \<in> {''started_at'', ''completed_at'', ''driver_id'', ''overall_status'',
           ''database_status'', ''summary_data'', ''recommendations''}
          \<union> ({''background_check_status'', ''insurance_status'',
               ''payment_status'', ''document_status''} - {''payment'' @ ''_status''})
   \<and> (rows (onboarding_records (snd (retryOnboardingStep sampleEnv sampleWorld ''d1'' ''payment'')))
        ! 0) ''payment_status'' = Some (SqlText ''completed'')
   \<and> (rows (onboarding_records (snd (retryOnboardingStep sampleEnv sampleWorld ''d1'' ''payment'')))
        ! 0) ''started_at'' = Some (SqlText ''2024-12-31T00:00:00.000Z'')
   \<and> (rows (onboarding_records (snd (retryOnboardingStep sampleEnv sampleWorld ''d1'' ''payment'')))
        ! 0) ''document_status'' = Some (SqlText ''failed'')"
proof -
  let ?w' = "snd (retryOnboardingStep sampleEnv sampleWorld ''d1'' ''payment'')"
  have h: "retryOnboardingStep sampleEnv sampleWorld ''d1'' ''payment''
             = (fst (retryOnboardingStep sampleEnv sampleWorld ''d1'' ''payment''), ?w')"
    by simp
  have i: "(0::nat) < length (rows (onboarding_records sampleWorld))"
    unfolding sample_retry_payment [THEN conjunct1] by simp
  have x: "''payment'' \<in> {''backgroundCheck'', ''insuranceVerification'', ''payment'',
                      ''documentStorage''}"
    by simp
  have c1: "''started_at''
       \<notin> (if ''payment'' = ''backgroundCheck''
           then {''backgroundcheck_status'', ''backgroundcheck_result'', ''updated_at''}
           else if ''payment'' = ''insuranceVerification''
           then {''insuranceverification_status'', ''insuranceverification_result'',
                 ''updated_at''}
           else if ''payment'' = ''payment''
           then {''payment_status'', ''payment_result'', ''updated_at''}
           else if ''payment'' = ''documentStorage''
           then {''documentstorage_status'', ''documentstorage_result'', ''updated_at''}
           else {})"
    by simp
  have c2: "''document_status''
       \<in> {''started_at'', ''completed_at'', ''driver_id'', ''overall_status'',
           ''database_status'', ''summary_data'', ''recommendations''}
          \<union> ({''background_check_status'', ''insurance_status'',
               ''payment_status'', ''document_status''} - {''payment'' @ ''_status''})"
    by simp
  note t = retry_frame [OF h]
  note s = sample_retry_payment
  have k1: "(rows (onboarding_records ?w') ! 0) ''started_at''
              = (rows (onboarding_records sampleWorld) ! 0) ''started_at''"
    by (rule t [THEN conjunct2, THEN conjunct2, THEN conjunct1, rule_format, OF i c1])
  have k2: "(rows (onboarding_records ?w') ! 0) ''document_status''
              = (rows (onboarding_records sampleWorld) ! 0) ''document_status''"
    by (rule t [THEN conjunct2, THEN conjunct2, THEN conjunct2, THEN conjunct2, THEN conjunct2,
                rule_format, OF x i c2])
  have p: "(rows (onboarding_records ?w') ! 0) ''payment_status'' = Some (SqlText ''completed'')"
    by (rule s [THEN conjunct2, THEN conjunct1])
  have k1': "(rows (onboarding_records ?w') ! 0) ''started_at''
               = Some (SqlText ''2024-12-31T00:00:00.000Z'')"
    unfolding k1 by (rule s [THEN conjunct2, THEN conjunct2, THEN conjunct2, THEN conjunct1])
  have k2': "(rows (onboarding_records ?w') ! 0) ''document_status'' = Some (SqlText ''failed'')"
    unfolding k2 by (rule s [THEN conjunct2, THEN conjunct2, THEN conjunct2, THEN conjunct2])
  from h i x c1 c2 p k1' k2' show ?thesis by (intro conjI)
qed

section \<open>The record stored by the database step\<close>

lemma sql_insert_rows:
  assumes "sql_insert t vals = Inr (n, t')"
  shows "rows t' = rows t @ [map_of ((''id'', SqlInt n) # assignments vals)]"
  using assms by (auto simp: sql_insert_def Let_def split: option.splits)

lemma update_status_rows:
  assumes "updateOnboardingStatus e w driver r = (res, w')"
  shows "\<exists>new. rows (onboarding_records w') = rows (onboarding_records w) @ new
           \<and> length new \<le> 1
           \<and> (new \<noteq> [] \<longleftrightarrow> (\<exists>n. res = Inr n))
           \<and> (\<forall>row \<in> set new.
                 row ''overall_status'' = Some (SqlText (overallStatus r))
                 \<and> row ''database_status''
                     = Some (SqlText (statusOrPending (steps r) ''databaseUpdate''))
                 \<and> row ''completed_at'' = Some (optText (completedAt r)))"
proof (cases res)
  case (Inl m)
  then have "w' = w"
    using assms by (auto simp: updateOnboardingStatus_def split: sum.splits prod.splits)
  with Inl show ?thesis by simp
next
  case (Inr n)
  let ?vals = "[(''driver_id'', optText driver),
                (''overall_status'', SqlText (overallStatus r)),
                (''background_check_status'',
                   SqlText (statusOrPending (steps r) ''backgroundCheck'')),
                (''insurance_status'',
                   SqlText (statusOrPending (steps r) ''insuranceVerification'')),
                (''payment_status'', SqlText (statusOrPending (steps r) ''payment'')),
                (''document_status'',
                   SqlText (statusOrPending (steps r) ''documentStorage'')),
                (''database_status'',
                   SqlText (statusOrPending (steps r) ''databaseUpdate'')),
                (''started_at'', SqlText (startedAt r)),
                (''completed_at'', optText (completedAt r)),
                (''summary_data'', SqlJson (SummaryJson (summary r))),
                (''recommendations'', SqlJson (RecommendationsJson (ob_recommendations r)))]"
  from assms Inr obtain profiles records where
    ins: "sql_insert (onboarding_records w) ?vals = Inr (n, records)"
    and w': "w' = w\<lparr>driver_profiles := profiles, onboarding_records := records\<rparr>"
    by (auto simp: updateOnboardingStatus_def split: sum.splits prod.splits)
  have "rows (onboarding_records w')
          = rows (onboarding_records w) @ [map_of ((''id'', SqlInt n) # assignments ?vals)]"
    unfolding w' using sql_insert_rows [OF ins] by simp
  moreover have "map_of ((''id'', SqlInt n) # assignments ?vals) ''overall_status''
                   = Some (SqlText (overallStatus r))"
    by (simp add: assignments_def folded_names)
  moreover have "map_of ((''id'', SqlInt n) # assignments ?vals) ''database_status''
                   = Some (SqlText (statusOrPending (steps r) ''databaseUpdate''))"
    by (simp add: assignments_def folded_names)
  moreover have "map_of ((''id'', SqlInt n) # assignments ?vals) ''completed_at''
                   = Some (optText (completedAt r))"
    by (simp add: assignments_def folded_names)
  ultimately show ?thesis using Inr by simp
qed

lemma determineOverallStatus_values:
  "determineOverallStatus ss \<in> {''completed'', ''partial'', ''failed''}"
  by (simp add: determineOverallStatus_def Let_def)

lemma determineOverallStatus_not_pending:
  "determineOverallStatus ss \<noteq> ''pending''"
  by (simp add: determineOverallStatus_def Let_def)

lemma onboarding_unfold:
  assumes "performCompleteOnboarding e w d = (r, w')"
  shows "\<exists>res r4 w4.
           updateOnboardingStatus e w4 (d_id d) r4 = (res, w')
           \<and> onboarding_records w4 = onboarding_records w
           \<and> overallStatus r4 = ''pending'' \<and> completedAt r4 = None
           \<and> map fst (steps r4)
               = [''backgroundCheck'', ''insuranceVerification'', ''payment'', ''documentStorage'']
           \<and> steps r
               = steps r4 @ [(''databaseUpdate'', captureStep e (map_sum id DatabaseResult res))]
           \<and> overallStatus r = determineOverallStatus (steps r)
           \<and> completedAt r = Some (now e)"
proof -
  let ?s4 = "[(''backgroundCheck'',
                 captureStep e (map_sum id BackgroundCheckResult
                   (performComprehensiveBackgroundCheck e d))),
              (''insuranceVerification'',
                 captureStep e (map_sum id InsuranceResult
                   (performComprehensiveInsuranceVerification e d))),
              (''payment'',
                 captureStep e (map_sum id PaymentResult (processOnboardingPayment e d))),
              (''documentStorage'',
                 captureStep e (map_sum id DocumentResult (storeDriverDocuments e d)))]"
  let ?r4 = "\<lparr>driverId = d_id d, startedAt = now e, steps = ?s4,
              overallStatus = ''pending'', summary = None, ob_recommendations = [],
              completedAt = None\<rparr>"
  let ?w4 = "invoke ''documentStorage'' (invoke ''payment''
               (invoke ''insuranceVerification'' (invoke ''backgroundCheck'' w)))"
  obtain res w5 where u: "updateOnboardingStatus e ?w4 (d_id d) ?r4 = (res, w5)"
    by (cases "updateOnboardingStatus e ?w4 (d_id d) ?r4") blast
  let ?s5 = "?s4 @ [(''databaseUpdate'', captureStep e (map_sum id DatabaseResult res))]"
  have run: "performCompleteOnboarding e w d
          = (?r4\<lparr>steps := ?s5, overallStatus := determineOverallStatus ?s5,
                  completedAt := Some (now e),
                  summary := Some (generateOnboardingSummary ?s5),
                  ob_recommendations := generateOnboardingRecommendations ?s5\<rparr>, w5)"
    by (simp add: performCompleteOnboarding_def Let_def u)
  from run assms have w5: "w5 = w'"
    and r: "r = ?r4\<lparr>steps := ?s5, overallStatus := determineOverallStatus ?s5,
                  completedAt := Some (now e),
                  summary := Some (generateOnboardingSummary ?s5),
                  ob_recommendations := generateOnboardingRecommendations ?s5\<rparr>"
    by simp_all
  have main: "updateOnboardingStatus e ?w4 (d_id d) ?r4 = (res, w')
           \<and> onboarding_records ?w4 = onboarding_records w
           \<and> overallStatus ?r4 = ''pending'' \<and> completedAt ?r4 = None
           \<and> map fst (steps ?r4)
               = [''backgroundCheck'', ''insuranceVerification'', ''payment'', ''documentStorage'']
           \<and> steps r
               = steps ?r4 @ [(''databaseUpdate'', captureStep e (map_sum id DatabaseResult res))]
           \<and> overallStatus r = determineOverallStatus (steps r)
           \<and> completedAt r = Some (now e)"
    using u unfolding w5 r by (simp add: invoke_def)
  show ?thesis
    by (rule exI [of _ res], rule exI [of _ "?r4"], rule exI [of _ "?w4"], rule main)
qed

lemma absent_step_pending:
  assumes "map fst ss
             = [''backgroundCheck'', ''insuranceVerification'', ''payment'', ''documentStorage'']"
  shows "map_of ss ''databaseUpdate'' = None"
proof -
  have "''databaseUpdate'' \<notin> set (map fst ss)" unfolding assms by simp
  then show ?thesis by (simp add: map_of_eq_None_iff)
qed

lemma captured_completed:
  "status (captureStep e (map_sum id f res)) = ''completed'' \<longleftrightarrow> (\<exists>n. res = Inr n)"
  by (cases res) (simp_all add: captureStep_def)

text \<open>
  Claim C9. A complete onboarding adds at most one onboarding record, and adds it
  exactly when its \<open>databaseUpdate\<close> step is completed. The record added has
  \<open>overall_status\<close> and \<open>database_status\<close> \<open>pending\<close> and a null \<open>completed_at\<close>, while
  the run returned has an overall status among \<open>completed\<close>, \<open>partial\<close>, \<open>failed\<close> and a
  \<open>completedAt\<close>: the stored overall status is never the returned one.
\<close>

theorem stored_record_is_pending:
  assumes "performCompleteOnboarding e w d = (r, w')"
  shows "\<exists>new. rows (onboarding_records w') = rows (onboarding_records w) @ new
           \<and> length new \<le> 1
           \<and> (new \<noteq> [] \<longleftrightarrow> statusAt (steps r) ''databaseUpdate'' = Some ''completed'')
           \<and> (\<forall>row \<in> set new.
                 row ''overall_status'' = Some (SqlText ''pending'')
                 \<and> row ''database_status'' = Some (SqlText ''pending'')
                 \<and> row ''completed_at'' = Some SqlNull
                 \<and> row ''overall_status'' \<noteq> Some (SqlText (overallStatus r)))
           \<and> overallStatus r \<in> {''completed'', ''partial'', ''failed''}
           \<and> completedAt r = Some (now e)"
proof -
  from onboarding_unfold [OF assms] obtain res r4 w4 where
    u: "updateOnboardingStatus e w4 (d_id d) r4 = (res, w')"
    and w4: "onboarding_records w4 = onboarding_records w"
    and p: "overallStatus r4 = ''pending''" "completedAt r4 = None"
    and k: "map fst (steps r4)
              = [''backgroundCheck'', ''insuranceVerification'', ''payment'', ''documentStorage'']"
    and s: "steps r
              = steps r4 @ [(''databaseUpdate'', captureStep e (map_sum id DatabaseResult res))]"
    and o: "overallStatus r = determineOverallStatus (steps r)"
    and c: "completedAt r = Some (now e)"
    by (elim exE conjE) (rule that)
  note absent = absent_step_pending [OF k]
  have sp: "statusOrPending (steps r4) ''databaseUpdate'' = ''pending''"
    by (simp add: statusOrPending_def statusAt_def absent truthy_def)
  have st: "statusAt (steps r) ''databaseUpdate'' = Some ''completed'' \<longleftrightarrow> (\<exists>n. res = Inr n)"
    unfolding s statusAt_def by (simp add: map_add_def absent captured_completed)
  have np: "overallStatus r \<noteq> ''pending''"
    unfolding o by (rule determineOverallStatus_not_pending)
  have vals: "overallStatus r \<in> {''completed'', ''partial'', ''failed''}"
    unfolding o by (rule determineOverallStatus_values)
  from update_status_rows [OF u] obtain new where
    n1: "rows (onboarding_records w') = rows (onboarding_records w) @ new"
    and n2: "length new \<le> 1"
    and n3: "new \<noteq> [] \<longleftrightarrow> (\<exists>n. res = Inr n)"
    and n4: "\<forall>row \<in> set new.
                 row ''overall_status'' = Some (SqlText (overallStatus r4))
                 \<and> row ''database_status''
                     = Some (SqlText (statusOrPending (steps r4) ''databaseUpdate''))
                 \<and> row ''completed_at'' = Some (optText (completedAt r4))"
    unfolding w4 by blast
  have n5: "\<forall>row \<in> set new.
                 row ''overall_status'' = Some (SqlText ''pending'')
                 \<and> row ''database_status'' = Some (SqlText ''pending'')
                 \<and> row ''completed_at'' = Some SqlNull
                 \<and> row ''overall_status'' \<noteq> Some (SqlText (overallStatus r))"
    using n4 np unfolding p sp optText_def by auto
  have n3': "new \<noteq> [] \<longleftrightarrow> statusAt (steps r) ''databaseUpdate'' = Some ''completed''"
    unfolding n3 st ..
  from n1 n2 n3' n5 vals c show ?thesis by (intro exI [of _ new] conjI)
qed

lemma sample_onboarding_rows:
  "length (rows (onboarding_records
             (snd (performCompleteOnboarding sampleEnv sampleWorld sampleDriver)))) = 2
   \<and> length (rows (onboarding_records sampleWorld)) = 1"
  by code_simp

theorem stored_record_is_pending_witness:
  "performCompleteOnboarding sampleEnv sampleWorld sampleDriver
     = (fst (performCompleteOnboarding sampleEnv sampleWorld sampleDriver),
        snd (performCompleteOnboarding sampleEnv sampleWorld sampleDriver))
   \<and> length (rows (onboarding_records
               (snd (performCompleteOnboarding sampleEnv sampleWorld sampleDriver))))
       = Suc (length (rows (onboarding_records sampleWorld)))
   \<and> last (rows (onboarding_records
               (snd (performCompleteOnboarding sampleEnv sampleWorld sampleDriver))))
         ''overall_status'' = Some (SqlText ''pending'')
   \<and> last (rows (onboarding_records
               (snd (performCompleteOnboarding sampleEnv sampleWorld sampleDriver))))
         ''database_status'' = Some (SqlText ''pending'')
   \<and> last (rows (onboarding_records
               (snd (performCompleteOnboarding sampleEnv sampleWorld sampleDriver))))
         ''completed_at'' = Some SqlNull
   \<and> overallStatus (fst (performCompleteOnboarding sampleEnv sampleWorld sampleDriver))
       \<noteq> ''pending''"
proof -
  let ?r = "fst (performCompleteOnboarding sampleEnv sampleWorld sampleDriver)"
  let ?w' = "snd (performCompleteOnboarding sampleEnv sampleWorld sampleDriver)"
  have h: "performCompleteOnboarding sampleEnv sampleWorld sampleDriver = (?r, ?w')" by simp
  have l: "length (rows (onboarding_records ?w'))
             = Suc (length (rows (onboarding_records sampleWorld)))"
    using sample_onboarding_rows by simp
  from stored_record_is_pending [OF h] obtain new where
    n1: "rows (onboarding_records ?w') = rows (onboarding_records sampleWorld) @ new"
    and n5: "\<forall>row \<in> set new.
                 row ''overall_status'' = Some (SqlText ''pending'')
                 \<and> row ''database_status'' = Some (SqlText ''pending'')
                 \<and> row ''completed_at'' = Some SqlNull
                 \<and> row ''overall_status'' \<noteq> Some (SqlText (overallStatus ?r))"
    by blast
  from l n1 have "new \<noteq> []" by auto
  then have "last (rows (onboarding_records ?w')) \<in> set new" unfolding n1 by simp
  with n5 have "last (rows (onboarding_records ?w')) ''overall_status'' = Some (SqlText ''pending'')
     \<and> last (rows (onboarding_records ?w')) ''database_status'' = Some (SqlText ''pending'')
     \<and> last (rows (onboarding_records ?w')) ''completed_at'' = Some SqlNull
     \<and> overallStatus ?r \<noteq> ''pending''"
    by auto
  with h l show ?thesis by (intro conjI) simp_all
qed

end
